theory Spec2Isabelle
  imports Main "HOL-Library.Word"
begin

section \<open>The syntax module of vasm (syntax/naoto/syntax.c)\<close>

text \<open>
  A shallow embedding of the line parser of syntax.c. A C string is a \<open>char list\<close>
  whose end stands for the terminating NUL; a pointer into a line is the text that
  remains from it, so reading \<open>*s\<close> is \<open>peek s\<close> and \<open>s + n\<close> is \<open>drop n s\<close>.
  The assembler core (expressions, symbols, atoms, the conditional engine, macros) is not
  part of the sources: its functions are fields of the record \<open>env\<close>, and every call
  that reaches it is appended to the field \<open>trace\<close> of the parser state. Where the
  C code reads or stores outside an object, or dereferences a null pointer, the model
  returns a \<open>fault\<close> (\<open>Inl\<close>) in place of a result.
\<close>

subsection \<open>Characters and strings\<close>

fun peek :: "string \<Rightarrow> char" where
  "peek [] = CHR 0x00"
| "peek (c # cs) = c"

definition isspace :: "char \<Rightarrow> bool" where
  "isspace c = (c = CHR '' '' \<or> (9 \<le> (of_char c :: nat) \<and> (of_char c :: nat) \<le> 13))"

definition isdigit :: "char \<Rightarrow> bool" where
  "isdigit c = (48 \<le> (of_char c :: nat) \<and> (of_char c :: nat) \<le> 57)"

definition tolower :: "char \<Rightarrow> char" where
  "tolower c = (if 65 \<le> (of_char c :: nat) \<and> (of_char c :: nat) \<le> 90
                then char_of ((of_char c :: nat) + 32) else c)"

definition isalpha :: "char \<Rightarrow> bool" where
  "isalpha c = ((65 \<le> (of_char c :: nat) \<and> (of_char c :: nat) \<le> 90)
                \<or> (97 \<le> (of_char c :: nat) \<and> (of_char c :: nat) \<le> 122))"

definition isalnum :: "char \<Rightarrow> bool" where
  "isalnum c = (isalpha c \<or> isdigit c)"

definition isidchar :: "char \<Rightarrow> bool" where
  "isidchar c = (isalnum c \<or> c = CHR ''_'')"

text \<open>\<open>skip\<close>: the while loop over white space.\<close>

fun skip :: "string \<Rightarrow> string" where
  "skip [] = []"
| "skip (c # cs) = (if isspace c then skip cs else c # cs)"

text \<open>What \<open>sprintf(buf,"%u",n)\<close> and \<open>sprintf(buf,"%d",n)\<close> (for \<open>n \<ge> 0\<close>) write.\<close>

definition digit_char :: "nat \<Rightarrow> char" where
  "digit_char d = ''0123456789'' ! d"

fun dec_str :: "nat \<Rightarrow> string" where
  "dec_str n = (if n < 10 then [digit_char n] else dec_str (n div 10) @ [digit_char (n mod 10)])"

declare dec_str.simps [simp del]

text \<open>\<open>strnicmp(s,name,len) == 0\<close> for a lower-case \<open>name\<close> of length \<open>len\<close>.\<close>

definition strnicmp0 :: "string \<Rightarrow> string \<Rightarrow> bool" where
  "strnicmp0 s name = (map tolower (take (length name) s) = name)"

subsection \<open>Values of the core\<close>

type_synonym taddr = int

type_synonym byte = "8 word"

text \<open>The cast \<open>(int)\<close> of a \<open>taddr\<close>: the low 32 bits, read as two's complement.\<close>

definition int_cast :: "taddr \<Rightarrow> int" where
  "int_cast v = sint (word_of_int v :: 32 word)"

datatype binop = ADD | SUB | MUL | BAND

datatype fault = Read_past_end | Store_past_end | Null_pointer

datatype symtype = IMPORT | LABSYM | EXPRESSION

record symbol =
  sym_type :: symtype
  sym_flags :: "32 word"

datatype ('e, 'o) atom =
    DATA (a_align: int) (db_data: "byte list")
  | SPACE (a_align: int) (space_exp: 'e) (sb_size: nat) (fill_exp: "'e option") (sb_space: int)
  | DATADEF (a_align: int) (bitsize: nat) (df_op: 'o)
  | INSTRUCTION
  | LABEL string
  | OTHER_ATOM

text \<open>The functions of the table \<open>directives\<close>.\<close>

datatype handler =
    H_rsset | H_rsreset | H_rseven | H_rs8 | H_rs16 | H_rs32
  | H_d8 | H_d16 | H_d32 | H_blk8 | H_blk16 | H_blk32 | H_spc8 | H_spc16 | H_spc32
  | H_org | H_obj | H_objend | H_cnop | H_even | H_align
  | H_incdir | H_include | H_incbin
  | H_else | H_elseif | H_endif
  | H_ifd | H_ifnd | H_ifmacrod | H_ifmacrond | H_ifnb | H_ifb | H_ifc | H_ifnc
  | H_ifeq | H_ifne | H_ifgt | H_ifge | H_iflt | H_ifle
  | H_comment | H_comend | H_struct | H_endstruct | H_module | H_endmodule
  | H_rept | H_irp | H_irpc | H_endr | H_endm | H_mexit | H_purge
  | H_section | H_pushsect | H_popsect
  | H_local | H_weak | H_global | H_xref | H_xdef
  | H_inform | H_list | H_nolist | H_fail | H_end

text \<open>
  The calls that leave the syntax module, in the order they are made. \<open>E_directive h s\<close>
  stands for the run of a handler whose body is not modelled (it only drives the core).
\<close>

datatype ('e, 'o) event =
    E_syntax_error nat
  | E_general_error nat
  | E_ierror
  | E_add_atom "('e, 'o) atom"
  | E_new_repeat int "string option" "string option" "string list" "string list"
  | E_parse_expr string
  | E_parse_constexpr string
  | E_eval_expr 'e
  | E_cond_if bool
  | E_cond_skipif
  | E_cond_else
  | E_cond_elseif bool
  | E_cond_skipelse
  | E_cond_endif
  | E_cond_check
  | E_new_equate string 'e
  | E_new_abs string 'e
  | E_new_labsym string
  | E_new_macro string string
  | E_new_structure string
  | E_execute_macro string "string list" string
  | E_new_inst string "string list" "string list"
  | E_directive handler string

text \<open>
  The static variables of syntax.c that change while parsing, the symbols as far as
  \<open>do_bind\<close> reads and writes them, the expression of the offset symbol \<open>__RS\<close>, and
  the trace.
\<close>

record ('e, 'o) pstate =
  parse_end :: bool
  anon_labno :: "32 word"
  symtab :: "string \<Rightarrow> symbol option"
  rs_expr :: 'e
  trace :: "('e, 'o) event list"

text \<open>A macro invocation context, as far as the escape expansion reads it.\<close>

record source =
  src_id :: nat
  num_params :: int
  param_len :: "int list"
  qual_len :: "int list"

text \<open>
  The build configuration (macros of vasm.h and cpu.h), the options of the module, and
  the functions of the core. None of them is defined in syntax.c. A function of the core
  that moves a pointer returns the number of characters it consumed. \<open>parse_string\<close>
  returns the bytes of the literal, or \<open>None\<close> for a null pointer;
  \<open>setval env big n v i\<close> is the byte that \<open>setval(big,p,n,v)\<close> stores at \<open>p[i]\<close>.
\<close>

record ('e, 'o) env =
  ISIDSTART :: "char \<Rightarrow> bool"
  ISIDCHAR :: "char \<Rightarrow> bool"
  START_PARENTH :: "char \<Rightarrow> bool"
  END_PARENTH :: "char \<Rightarrow> bool"
  current_pc_char :: char
  commentchar :: char
  local_char :: char
  allow_spaces :: bool
  align_data :: bool
  esc_sequences :: bool
  maxmacparams :: int
  MAX_QUALIFIERS :: nat
  MAX_OPERANDS :: nat
  ALLOW_EMPTY_OPS :: bool
  VASM_CPU_M68K :: bool
  BIGENDIAN :: bool
  sizeof_taddr :: nat
  DATA_ALIGN :: "int \<Rightarrow> int"
  EXPORT :: "32 word"
  WEAK :: "32 word"
  LOCAL :: "32 word"
  XREF :: "32 word"
  XDEF :: "32 word"
  REPT_IRP :: int
  REPT_IRPC :: int
  make_local_label :: "int \<Rightarrow> string option \<Rightarrow> string \<Rightarrow> string"
  parse_symbol :: "('e, 'o) pstate \<Rightarrow> string \<Rightarrow> (string \<times> nat) option"
  parse_identifier :: "string \<Rightarrow> (string \<times> nat) option"
  skip_identifier :: "string \<Rightarrow> nat option"
  parse_name :: "string \<Rightarrow> (string \<times> nat) option"
  parse_constexpr :: "('e, 'o) pstate \<Rightarrow> string \<Rightarrow> taddr \<times> nat"
  parse_expr_tmplab :: "('e, 'o) pstate \<Rightarrow> string \<Rightarrow> 'e \<times> nat"
  eval_expr :: "('e, 'o) pstate \<Rightarrow> 'e \<Rightarrow> taddr option"
  make_expr :: "binop \<Rightarrow> 'e \<Rightarrow> 'e \<Rightarrow> 'e"
  number_expr :: "taddr \<Rightarrow> 'e"
  simplify_expr :: "'e \<Rightarrow> 'e"
  skip_string :: "string \<Rightarrow> char \<Rightarrow> nat"
  parse_string :: "string \<Rightarrow> char \<Rightarrow> (byte list \<times> nat) option"
  parse_operand :: "string \<Rightarrow> nat \<Rightarrow> 'o option"
  setval :: "bool \<Rightarrow> nat \<Rightarrow> taddr \<Rightarrow> nat \<Rightarrow> byte"
  find_structure :: "('e, 'o) pstate \<Rightarrow> string \<Rightarrow> ('e, 'o) atom list option"
  cond_state :: "('e, 'o) pstate \<Rightarrow> bool"
  parse_cpu_special :: "string \<Rightarrow> nat"
  parse_cpu_label :: "string \<Rightarrow> string \<Rightarrow> bool \<times> nat"
  parse_instruction :: "string \<Rightarrow> nat \<times> string list \<times> nat"
  execute_macro :: "('e, 'o) pstate \<Rightarrow> string \<Rightarrow> string list \<Rightarrow> string \<Rightarrow> bool"
  new_inst :: "('e, 'o) pstate \<Rightarrow> string \<Rightarrow> string list \<Rightarrow> bool option"
  find_macarg_name :: "source \<Rightarrow> string \<Rightarrow> int"
  copy_macro_param :: "source \<Rightarrow> int \<Rightarrow> int \<Rightarrow> int \<times> string"
  copy_macro_qual :: "source \<Rightarrow> int \<Rightarrow> int \<Rightarrow> int \<times> string"

definition ISEOL :: "('e, 'o) env \<Rightarrow> string \<Rightarrow> bool" where
  "ISEOL env s = (peek s = CHR 0x00 \<or> peek s = commentchar env)"

definition emit :: "('e, 'o) event \<Rightarrow> ('e, 'o) pstate \<Rightarrow> ('e, 'o) pstate" where
  "emit e st = st\<lparr>trace := trace st @ [e]\<rparr>"

subsection \<open>Local and anonymous labels\<close>

definition skip_local :: "('e, 'o) env \<Rightarrow> string \<Rightarrow> nat option" where
  "skip_local env p =
     (if ISIDSTART env (peek p) \<or> isdigit (peek p)
      then Some (Suc (length (takeWhile (ISIDCHAR env) (drop 1 p))))
      else None)"

text \<open>The loop of \<open>get_local_label\<close> over the markers that follow the first one.\<close>

fun anon_refno :: "32 word \<Rightarrow> string \<Rightarrow> 32 word \<times> string" where
  "anon_refno refno [] = (refno, [])"
| "anon_refno refno (c # cs) =
     (if c = CHR ''+'' then anon_refno (refno + 1) cs
      else if c = CHR ''-'' then anon_refno (refno - 1) cs
      else (refno, c # cs))"

text \<open>The last branch of \<open>get_local_label\<close>: \<open>else if (*s++ == ':')\<close>.\<close>

definition anon_label_ref ::
  "('e, 'o) env \<Rightarrow> ('e, 'o) pstate \<Rightarrow> int \<Rightarrow> string \<Rightarrow> string option \<times> string" where
  "anon_label_ref env st n start =
     (if peek start = CHR '':'' then
        (let s = drop 1 start in
         if peek s = CHR ''+'' \<or> peek s = CHR ''-'' then
           (let refno0 = (if peek s = CHR ''+'' then anon_labno st + 1 else anon_labno st);
                (refno, s') = anon_refno refno0 (drop 1 s)
            in (Some (make_local_label env n (Some '':'') (dec_str (unat refno))), skip s'))
         else (None, start))
      else (None, start))"

definition get_local_label ::
  "('e, 'o) env \<Rightarrow> ('e, 'o) pstate \<Rightarrow> int \<Rightarrow> string \<Rightarrow> string option \<times> string" where
  "get_local_label env st n start =
     (case skip_local env start of
        None \<Rightarrow> anon_label_ref env st n start
      | Some p \<Rightarrow>
          if peek (drop p start) = CHR '':'' \<and> ISIDSTART env (peek start)
             \<and> peek start \<noteq> local_char env \<and> peek (drop (p - 1) start) \<noteq> CHR ''$'' then
            (let s = drop (p + 1) start in
             case skip_local env s of
               Some q \<Rightarrow>
                 (Some (make_local_label env n (Some (take p start))
                          (take (if peek (drop (q - 1) s) = CHR ''$'' then q - 1 else q) s)),
                  skip (drop q s))
             | None \<Rightarrow> (None, start))
          else if p > 1 \<and> peek start = local_char env then
            (Some (make_local_label env n None (take (p - 1) (drop 1 start))),
             skip (drop p start))
          else if p > 0 \<and> peek (drop p start) = CHR ''$'' then
            (Some (make_local_label env n None (take p start)), skip (drop (p + 1) start))
          else anon_label_ref env st n start)"

text \<open>
  \<open>parse_label_or_pc\<close> returns the name (or NULL), the new \<open>*start\<close> and the state:
  the anonymous definition increments \<open>anon_labno\<close>.
\<close>

definition label_or_pc_tail ::
  "('e, 'o) env \<Rightarrow> ('e, 'o) pstate \<Rightarrow> string \<Rightarrow> string option \<Rightarrow> string
     \<Rightarrow> string option \<times> string \<times> ('e, 'o) pstate" where
  "label_or_pc_tail env st start name s =
     (let (name', s') =
            (if name = None \<and> peek s = current_pc_char env \<and> \<not> ISIDCHAR env (peek (drop 1 s))
             then (Some [current_pc_char env], skip (drop 1 s))
             else (name, s))
      in if name' \<noteq> None then (name', s', st) else (None, start, st))"

definition parse_label_or_pc ::
  "('e, 'o) env \<Rightarrow> ('e, 'o) pstate \<Rightarrow> string
     \<Rightarrow> string option \<times> string \<times> ('e, 'o) pstate" where
  "parse_label_or_pc env st start =
     (if peek start = CHR '':'' then
        (let st' = st\<lparr>anon_labno := anon_labno st + 1\<rparr>;
             name = make_local_label env 0 (Some '':'') (dec_str (unat (anon_labno st')))
         in label_or_pc_tail env st' start (Some name) (skip (drop 1 start)))
      else
        (let s = (if isspace (peek start) then skip start else start);
             lvalid = \<not> isspace (peek start)
         in case parse_symbol env st s of
              Some (name, k) \<Rightarrow>
                (let s1 = skip (drop k s) in
                 if peek s1 = CHR '':'' then
                   (if peek (drop 1 s1) = CHR ''+'' \<or> peek (drop 1 s1) = CHR ''-''
                    then (None, start, st)
                    else label_or_pc_tail env st start (Some name) (drop 1 s1))
                 else if \<not> lvalid then (None, start, st)
                 else label_or_pc_tail env st start (Some name) s1)
            | None \<Rightarrow> label_or_pc_tail env st start None s))"

subsection \<open>Repetition directives\<close>

definition rept_dirlist :: "string list" where
  "rept_dirlist = [''rept'', ''irp'', ''irpc'']"

definition endr_dirlist :: "string list" where
  "endr_dirlist = [''endr'']"

definition handle_rept :: "('e, 'o) env \<Rightarrow> string \<Rightarrow> ('e, 'o) pstate \<Rightarrow> ('e, 'o) pstate" where
  "handle_rept env s st =
     (let cnt = int_cast (fst (parse_constexpr env st s));
          st1 = emit (E_parse_constexpr s) st
      in emit (E_new_repeat (if cnt < 0 then 0 else cnt) None None rept_dirlist endr_dirlist) st1)"

subsection \<open>Macro escapes\<close>

definition count_passed_macargs :: "('e, 'o) env \<Rightarrow> source \<Rightarrow> int" where
  "count_passed_macargs env src =
     int (length (filter (\<lambda>i. param_len src ! i > 0) [0 ..< nat (maxmacparams env)]))"

text \<open>The character \<open>macro_arg_defined\<close> stores for the argument of index \<open>n \<ge> 0\<close>.\<close>

definition arg_flag :: "('e, 'o) env \<Rightarrow> source \<Rightarrow> int \<Rightarrow> char" where
  "arg_flag env src n =
     (if n < num_params src \<and> n < maxmacparams env \<and> param_len src ! nat n > 0
      then CHR ''1'' else CHR ''0'')"

text \<open>
  \<open>macro_arg_defined\<close> returns its result and the characters it stored to \<open>d\<close>;
  \<open>arg\<close> is the text from \<open>argstart\<close> to \<open>argend\<close>.
\<close>

definition macro_arg_defined ::
  "('e, 'o) env \<Rightarrow> source \<Rightarrow> string \<Rightarrow> bool \<Rightarrow> int \<times> string" where
  "macro_arg_defined env src arg type =
     (if type then
        (let n = find_macarg_name env src arg
         in if n \<ge> 0 then (1, [arg_flag env src n]) else (0, []))
      else
        (let n = int (of_char (peek arg)) - 48
         in if n = 0 then
              (1, [if MAX_QUALIFIERS env > 0
                   then (if qual_len src ! 0 > 0 then CHR ''1'' else CHR ''0'')
                   else CHR ''0''])
            else if n - 1 \<ge> 0 then (1, [arg_flag env src (n - 1)]) else (0, [])))"

text \<open>What \<open>sprintf(d,"_%06lu",id)\<close> writes, without the terminating NUL.\<close>

definition unique_id_str :: "nat \<Rightarrow> string" where
  "unique_id_str n = CHR ''_'' # replicate (6 - length (dec_str n)) CHR ''0'' @ dec_str n"

text \<open>
  \<open>expand_macro\<close> returns \<open>nc\<close>, the characters stored to \<open>d\<close> (a terminating NUL of
  \<open>sprintf\<close> is not counted) and the new \<open>*line\<close>. \<open>escape_body\<close> is the chain of
  cases on the character after the backslash: it yields \<open>nc\<close>, the characters stored
  and \<open>s\<close>.
\<close>

definition escape_body ::
  "('e, 'o) env \<Rightarrow> source \<Rightarrow> string \<Rightarrow> int \<Rightarrow> int \<times> string \<times> string" where
  "escape_body env src s dlen =
     (if peek s = CHR 0x5C then
        (if dlen \<ge> 1 then
           (if esc_sequences env then
              (if dlen \<ge> 2 then (2, [CHR 0x5C, CHR 0x5C], drop 1 s)
               else (- 1, [CHR 0x5C], drop 1 s))
            else (1, [CHR 0x5C], drop 1 s))
         else (- 1, [], s))
      else if peek s = CHR ''@'' then
        (if dlen > 7
         then (int (length (unique_id_str (src_id src))), unique_id_str (src_id src), drop 1 s)
         else (- 1, [], s))
      else if peek s = CHR ''#'' then
        (if dlen > 3
         then (let t = dec_str (nat (count_passed_macargs env src))
               in (int (length t), t, drop 1 s))
         else (- 1, [], s))
      else if peek s = CHR ''?'' \<and> dlen \<ge> 1 then
        (if isdigit (peek (drop 1 s)) \<and> dlen > 3 then
           (let (r, w) = macro_arg_defined env src (take 1 (drop 1 s)) False
            in (r, w, if r \<ge> 0 then drop 2 s else s))
         else
           (case skip_identifier env (drop 1 s) of
              Some k \<Rightarrow>
                (let (r, w) = macro_arg_defined env src (take k (drop 1 s)) True
                 in (r, w, if r \<ge> 0 then drop (1 + k) s else s))
            | None \<Rightarrow> (- 1, [], s)))
      else if isdigit (peek s) then
        (let (r, w) = (if peek s = CHR ''0'' then copy_macro_qual env src 0 dlen
                       else copy_macro_param env src (int (of_char (peek s)) - 49) dlen)
         in (r, w, drop 1 s))
      else
        (case skip_identifier env s of
           Some k \<Rightarrow>
             (let n = find_macarg_name env src (take k s)
              in if n \<ge> 0 then
                   (let (r, w) = copy_macro_param env src n dlen in (r, w, drop k s))
                 else (0, [], s))
         | None \<Rightarrow> (0, [], s)))"

definition expand_macro ::
  "('e, 'o) env \<Rightarrow> source \<Rightarrow> string \<Rightarrow> int \<Rightarrow> int \<times> string \<times> string" where
  "expand_macro env src line dlen =
     (if peek line = CHR 0x5C then
        (let (nc, w, s) = escape_body env src (drop 1 line) dlen
         in if nc \<ge> dlen then (- 1, w, line)
            else if nc \<ge> 0 then (nc, w, s)
            else (nc, w, line))
      else (0, [], line))"

subsection \<open>Reserve-symbol directives\<close>

text \<open>
  The module passes \<open>rs_name\<close> for \<open>symname\<close> in every call, so the expression of the
  offset symbol is the field \<open>rs_expr\<close>. The functions return the state and the new
  \<open>*s\<close>; \<open>~dalign\<close> is \<open>- dalign - 1\<close>.
\<close>

definition new_setoffset_size ::
  "('e, 'o) env \<Rightarrow> ('e, 'o) pstate \<Rightarrow> string option \<Rightarrow> string \<Rightarrow> int \<Rightarrow> taddr
     \<Rightarrow> ('e, 'o) pstate \<times> string" where
  "new_setoffset_size env st equname s dir sz =
     (let dirop = (if dir > 0 then ADD else SUB);
          (old, new, st1, s1) =
            (if \<not> ISEOL env s then
               (let (e, k) = parse_expr_tmplab env st s;
                    new1 = simplify_expr env (make_expr env MUL e (number_expr env sz));
                    old1 = (if align_data env \<and> sz > 1 then
                              (let dalign = DATA_ALIGN env (sz * 8) - 1
                               in simplify_expr env
                                    (make_expr env BAND
                                       (make_expr env dirop (rs_expr st) (number_expr env dalign))
                                       (number_expr env (- dalign - 1))))
                            else rs_expr st)
                in (old1, make_expr env dirop old1 new1, emit (E_parse_expr s) st, drop k s))
             else (rs_expr st, rs_expr st, st, s));
          st2 = (case equname of
                   Some nm \<Rightarrow> emit (E_new_equate nm (if dir > 0 then old else new)) st1
                 | None \<Rightarrow> st1)
      in (st2\<lparr>rs_expr := simplify_expr env new\<rparr>, s1))"

text \<open>
  \<open>new_setoffset\<close> reads \<open>start[2]\<close> and, after a \<open>.\<close>, \<open>start[3]\<close>, and goes on
  from \<open>start+4\<close>: for a text that ends before that, it reads past the terminating NUL.
\<close>

definition new_setoffset ::
  "('e, 'o) env \<Rightarrow> ('e, 'o) pstate \<Rightarrow> string option \<Rightarrow> string \<Rightarrow> int
     \<Rightarrow> fault + (('e, 'o) pstate \<times> string)" where
  "new_setoffset env st equname start dir =
     (if length start < 2 then Inl Read_past_end
      else if peek (drop 2 start) = CHR ''.'' then
        (if length start < 4 then Inl Read_past_end
         else
           (let ext = tolower (peek (drop 3 start));
                s = skip (drop 4 start)
            in if ext = CHR ''b'' then Inr (new_setoffset_size env st equname s dir 1)
               else if ext = CHR ''w'' then Inr (new_setoffset_size env st equname s dir 2)
               else if ext = CHR ''l'' then Inr (new_setoffset_size env st equname s dir 4)
               else Inr (new_setoffset_size env (emit (E_syntax_error 1) st) equname s dir 1)))
      else Inr (new_setoffset_size env st equname (skip (drop 2 start)) dir 2))"

definition setoffset_align ::
  "('e, 'o) env \<Rightarrow> int \<Rightarrow> taddr \<Rightarrow> ('e, 'o) pstate \<Rightarrow> ('e, 'o) pstate" where
  "setoffset_align env dir align st =
     st\<lparr>rs_expr :=
          simplify_expr env
            (make_expr env BAND
               (make_expr env (if dir > 0 then ADD else SUB) (rs_expr st)
                  (number_expr env (align - 1)))
               (number_expr env (- (align - 1) - 1)))\<rparr>"

text \<open>
  \<open>offs_directive\<close>, with the order of evaluation of \<open>&&\<close> and \<open>||\<close>: \<open>*(d+2)\<close> is
  read when the name matches and \<open>*d\<close> is a \<open>.\<close>; when the text ends right after that
  \<open>.\<close>, this is a read past the terminating NUL.
\<close>

definition offs_directive :: "('e, 'o) env \<Rightarrow> string \<Rightarrow> string \<Rightarrow> fault + bool" where
  "offs_directive env s name =
     (let d = drop (length name) s
      in if \<not> strnicmp0 s name then Inr False
         else if isspace (peek d) \<or> ISEOL env d then Inr True
         else if peek d = CHR ''.'' then
           (if length d < 2 then Inl Read_past_end
            else Inr (isspace (peek (drop 2 d)) \<or> ISEOL env (drop 2 d)))
         else Inr False)"

subsection \<open>Operands and the end of the line\<close>

definition eol :: "('e, 'o) env \<Rightarrow> string \<Rightarrow> ('e, 'o) pstate \<Rightarrow> ('e, 'o) pstate" where
  "eol env s st =
     (if allow_spaces env then
        (if \<not> ISEOL env (skip s) then emit (E_syntax_error 6) st else st)
      else
        (if \<not> ISEOL env s \<and> \<not> isspace (peek s) then emit (E_syntax_error 6) st else st))"

text \<open>
  The loop of \<open>skip_operand\<close> (the build without \<open>VASM_CPU_Z80\<close>), with \<open>par_cnt\<close>.
  \<open>skip_string env s c\<close> is the number of characters of the literal at \<open>s\<close> after its
  opening delimiter.
\<close>

fun skip_operand_loop ::
  "('e, 'o) env \<Rightarrow> int \<Rightarrow> string \<Rightarrow> ('e, 'o) pstate \<Rightarrow> string \<times> int \<times> ('e, 'o) pstate" where
  "skip_operand_loop env par_cnt [] st = ([], par_cnt, st)"
| "skip_operand_loop env par_cnt (c # cs) st =
     (if START_PARENTH env c then skip_operand_loop env (par_cnt + 1) cs st
      else if END_PARENTH env c then
        (if par_cnt > 0 then skip_operand_loop env (par_cnt - 1) cs st
         else skip_operand_loop env par_cnt cs (emit (E_syntax_error 3) st))
      else if c = CHR 0x27 \<or> c = CHR 0x22 then
        skip_operand_loop env par_cnt (drop (skip_string env (c # cs) c) cs) st
      else if c = CHR 0x00 \<or> (par_cnt = 0 \<and> (c = CHR '','' \<or> c = commentchar env)) then
        (c # cs, par_cnt, st)
      else skip_operand_loop env par_cnt cs st)"

definition skip_operand ::
  "('e, 'o) env \<Rightarrow> string \<Rightarrow> ('e, 'o) pstate \<Rightarrow> string \<times> ('e, 'o) pstate" where
  "skip_operand env s st =
     (let (s', par_cnt, st') = skip_operand_loop env 0 s st
      in (s', if par_cnt \<noteq> 0 then emit (E_syntax_error 4) st' else st'))"

text \<open>\<open>oplen(e,s)\<close>, for the text between \<open>s\<close> and \<open>e\<close>.\<close>

definition oplen :: "string \<Rightarrow> nat" where
  "oplen t = length (dropWhile isspace (rev t))"

subsection \<open>Structure instantiation\<close>

text \<open>Storing \<open>bs\<close> at offset \<open>off\<close> of a buffer that has room for them.\<close>

definition write_at :: "byte list \<Rightarrow> nat \<Rightarrow> byte list \<Rightarrow> byte list" where
  "write_at buf off bs = take off buf @ bs @ drop (off + length bs) buf"

text \<open>
  The branch of \<open>execute_struct\<close> for constant data (\<open>p->type == DATA\<close>). The result
  of \<open>parse_string\<close> is dereferenced without a test. \<open>setval\<close> stores
  \<open>sizeof(taddr)\<close> bytes, whatever the size of the block: into a block shorter than
  that it stores past its end.
\<close>

definition struct_data ::
  "('e, 'o) env \<Rightarrow> ('e, 'o) atom \<Rightarrow> string \<Rightarrow> ('e, 'o) pstate \<Rightarrow> fault + ('e, 'o) pstate" where
  "struct_data env p opp st =
     (let n = length (db_data p); zero = replicate n (0 :: byte)
      in if n \<noteq> 0 then
           (if peek opp = CHR 0x22 \<or> peek opp = CHR 0x27 then
              (case parse_string env opp (peek opp) of
                 None \<Rightarrow> Inl Null_pointer
               | Some (str, k) \<Rightarrow>
                   if length str \<noteq> 0 then
                     Inr (emit (E_add_atom (DATA (a_align p) (write_at zero 0 (take n str))))
                            (if length str > n then emit (E_syntax_error 21) st else st))
                   else Inr (emit (E_add_atom (DATA (a_align p) zero)) st))
            else
              (let val = fst (parse_constexpr env st opp);
                   off = (if n > sizeof_taddr env \<and> BIGENDIAN env then n - sizeof_taddr env else 0)
               in if n < off + sizeof_taddr env then Inl Store_past_end
                  else Inr (emit (E_add_atom (DATA (a_align p)
                              (write_at zero off
                                 (map (setval env (BIGENDIAN env) (sizeof_taddr env) val)
                                    [0 ..< sizeof_taddr env]))))
                         (emit (E_parse_constexpr opp) st))))
         else Inr (emit (E_add_atom (DATA (a_align p) [])) st))"

text \<open>The branch \<open>opl > 0\<close>: the atom is initialised from the operand text.\<close>

definition struct_init ::
  "('e, 'o) env \<Rightarrow> ('e, 'o) atom \<Rightarrow> string \<Rightarrow> nat \<Rightarrow> ('e, 'o) pstate
     \<Rightarrow> fault + ('e, 'o) pstate" where
  "struct_init env p opp opl st =
     (case p of
        DATADEF al bits dop \<Rightarrow>
          (case parse_operand env (take opl opp) bits of
             Some op' \<Rightarrow> Inr (emit (E_add_atom (DATADEF al bits op')) st)
           | None \<Rightarrow> Inr (emit (E_syntax_error 8) st))
      | SPACE al sexp sz fill sp \<Rightarrow>
          Inr (emit (E_add_atom (SPACE al sexp sz (Some (fst (parse_expr_tmplab env st opp))) sp))
                 (emit (E_parse_expr opp) st))
      | _ \<Rightarrow> struct_data env p opp st)"

definition is_field :: "('e, 'o) atom \<Rightarrow> bool" where
  "is_field p = (case p of DATA _ _ \<Rightarrow> True | SPACE _ _ _ _ _ \<Rightarrow> True
                 | DATADEF _ _ _ \<Rightarrow> True | _ \<Rightarrow> False)"

text \<open>The loop \<open>for (p=str->first; p; p=p->next)\<close>; \<open>clone_atom(p)\<close> is \<open>p\<close>.\<close>

fun struct_atoms ::
  "('e, 'o) env \<Rightarrow> ('e, 'o) atom list \<Rightarrow> string \<Rightarrow> ('e, 'o) pstate \<Rightarrow> fault + ('e, 'o) pstate" where
  "struct_atoms env [] s st = Inr st"
| "struct_atoms env (p # ps) s st =
     (if is_field p then
        (let opp = skip s;
             (s1, st1) = skip_operand env opp st;
             opl = length opp - length s1;
             s2 = skip s1
         in case (if opl > 0 then struct_init env p opp opl st1
                  else Inr (emit (E_add_atom p) st1)) of
              Inl f \<Rightarrow> Inl f
            | Inr st2 \<Rightarrow>
                struct_atoms env ps (if peek s2 = CHR '','' then drop 1 s2 else s2) st2)
      else if p = INSTRUCTION then struct_atoms env ps s (emit (E_syntax_error 20) st)
      else struct_atoms env ps s st)"

definition execute_struct ::
  "('e, 'o) env \<Rightarrow> string \<Rightarrow> string \<Rightarrow> ('e, 'o) pstate \<Rightarrow> fault + (int \<times> ('e, 'o) pstate)" where
  "execute_struct env name s st =
     (case find_structure env st name of
        None \<Rightarrow> Inr (0, st)
      | Some atoms \<Rightarrow>
          (case struct_atoms env atoms s st of
             Inl f \<Rightarrow> Inl f
           | Inr st' \<Rightarrow> Inr (1, st')))"

subsection \<open>Conditional directives\<close>

text \<open>\<open>eval_ifexp\<close> returns \<open>b\<close>, the number of characters of the expression and the state.\<close>

definition eval_ifexp ::
  "('e, 'o) env \<Rightarrow> ('e, 'o) pstate \<Rightarrow> string \<Rightarrow> int \<Rightarrow> bool \<times> nat \<times> ('e, 'o) pstate" where
  "eval_ifexp env st s c =
     (let (condexp, k) = parse_expr_tmplab env st s;
          st1 = emit (E_eval_expr condexp) (emit (E_parse_expr s) st)
      in case eval_expr env st condexp of
           Some val \<Rightarrow>
             (if c = 0 then (val = 0, k, st1)
              else if c = 1 then (val \<noteq> 0, k, st1)
              else if c = 2 then (val > 0, k, st1)
              else if c = 3 then (val \<ge> 0, k, st1)
              else if c = 4 then (val < 0, k, st1)
              else if c = 5 then (val \<le> 0, k, st1)
              else (False, k, emit E_ierror st1))
         | None \<Rightarrow> (False, k, emit (E_general_error 30) st1))"

definition ifexp :: "('e, 'o) env \<Rightarrow> string \<Rightarrow> int \<Rightarrow> ('e, 'o) pstate \<Rightarrow> ('e, 'o) pstate" where
  "ifexp env s c st = (let (b, k, st1) = eval_ifexp env st s c in emit (E_cond_if b) st1)"

definition handle_iif ::
  "('e, 'o) env \<Rightarrow> ('e, 'o) pstate \<Rightarrow> string \<Rightarrow> string \<times> ('e, 'o) pstate" where
  "handle_iif env st line_ptr =
     (if strnicmp0 line_ptr ''iif'' \<and> isspace (peek (drop 3 line_ptr)) then
        (let lp = skip (drop 3 line_ptr);
             (condition, expr_len, st1) = eval_ifexp env st lp 1
         in if condition then (skip (drop expr_len lp), st1) else ([], st1))
      else (line_ptr, st))"

subsection \<open>Linker-related directives\<close>

text \<open>
  Modelled from the spec: \<open>new_import\<close> of the symbol table (define/lookup/import) returns
  the symbol of that name and, when there is none, enters an undefined symbol without
  binding flags.
\<close>

definition new_import :: "string \<Rightarrow> ('e, 'o) pstate \<Rightarrow> symbol \<times> ('e, 'o) pstate" where
  "new_import name st =
     (case symtab st name of
        Some sy \<Rightarrow> (sy, st)
      | None \<Rightarrow>
          (let sy = \<lparr>sym_type = IMPORT, sym_flags = 0\<rparr>
           in (sy, st\<lparr>symtab := (symtab st)(name := Some sy)\<rparr>)))"

text \<open>
  The test of \<open>do_bind\<close>,
  \<^verbatim>\<open>sy->flags & (EXPORT|WEAK|LOCAL) != 0 && sy->flags & (EXPORT|WEAK|LOCAL) != bind\<close>.
  In C the operator \<open>!=\<close> binds tighter than \<open>&\<close>, so each side is \<open>flags & (mask != x)\<close>,
  where the comparison is 1 or 0.
\<close>

definition bind_clash :: "('e, 'o) env \<Rightarrow> 32 word \<Rightarrow> 32 word \<Rightarrow> bool" where
  "bind_clash env flags bind =
     (let mask = or (EXPORT env) (or (WEAK env) (LOCAL env))
      in and flags (if mask \<noteq> 0 then 1 else 0) \<noteq> 0
         \<and> and flags (if mask \<noteq> bind then 1 else 0) \<noteq> 0)"

text \<open>The body of the loop of \<open>do_bind\<close> after \<open>new_import\<close>.\<close>

definition bind_symbol ::
  "('e, 'o) env \<Rightarrow> string \<Rightarrow> 32 word \<Rightarrow> ('e, 'o) pstate \<Rightarrow> ('e, 'o) pstate" where
  "bind_symbol env name bind st =
     (let (sy, st1) = new_import name st
      in if bind_clash env (sym_flags sy) bind then emit (E_general_error 62) st1
         else
           (let st2 = st1\<lparr>symtab := (symtab st1)
                           (name := Some (sy\<lparr>sym_flags := or (sym_flags sy) bind\<rparr>))\<rparr>
            in if and bind (XREF env) \<noteq> 0 \<and> sym_type sy \<noteq> IMPORT
               then emit (E_general_error 85) st2 else st2))"

function do_bind ::
  "('e, 'o) env \<Rightarrow> string \<Rightarrow> 32 word \<Rightarrow> ('e, 'o) pstate \<Rightarrow> ('e, 'o) pstate" where
  "do_bind env s bind st =
     (case parse_identifier env s of
        None \<Rightarrow> emit (E_syntax_error 10) st
      | Some (name, k) \<Rightarrow>
          (if peek (skip (drop k s)) \<noteq> CHR '',''
           then eol env (skip (drop k s)) (bind_symbol env name bind st)
           else do_bind env (skip (drop 1 (skip (drop k s)))) bind
                  (bind_symbol env name bind st)))"
  by pat_completeness auto
termination
proof (relation "measure (\<lambda>(env, s, bind, st). length s)")
  show "wf (measure (\<lambda>(env, s, bind, st). length s))" by simp
next
  have length_skip_le: "length (skip x) \<le> length x" for x
    by (induction x) auto
  fix env :: "('e, 'o) env" and s :: string and bind :: "32 word" and st :: "('e, 'o) pstate"
    and x2 :: "string \<times> nat" and name :: string and k :: nat
  assume "\<not> peek (skip (drop k s)) \<noteq> CHR '',''"
  then have ne: "skip (drop k s) \<noteq> []" by auto
  have "length (skip (drop 1 (skip (drop k s)))) \<le> length (drop 1 (skip (drop k s)))"
    by (rule length_skip_le)
  also have "\<dots> < length (skip (drop k s))" using ne by simp
  also have "\<dots> \<le> length (drop k s)" by (rule length_skip_le)
  also have "\<dots> \<le> length s" by simp
  finally show "((env, skip (drop 1 (skip (drop k s))), bind, bind_symbol env name bind st),
                 (env, s, bind, st)) \<in> measure (\<lambda>(env, s, bind, st). length s)"
    by simp
qed

declare do_bind.simps [simp del]

subsection \<open>Miscellaneous directives\<close>

definition handle_inform :: "('e, 'o) env \<Rightarrow> string \<Rightarrow> ('e, 'o) pstate \<Rightarrow> ('e, 'o) pstate" where
  "handle_inform env s st =
     (let (v, k) = parse_constexpr env st s;
          severity = int_cast v;
          st1 = emit (E_parse_constexpr s) st;
          s1 = skip (drop k s)
      in if peek s1 \<noteq> CHR '','' then emit (E_syntax_error 5) st1
         else
           (let s2 = skip (drop 1 s1)
            in case parse_name env s2 of
                 Some (txt, k2) \<Rightarrow>
                   eol env (drop k2 s2)
                     (if severity = 0 then emit (E_syntax_error 16) st1
                      else if severity = 1 then emit (E_syntax_error 17) st1
                      else if severity = 2 then emit (E_syntax_error 18) st1
                      else if severity = 3 then (emit (E_syntax_error 19) st1)\<lparr>parse_end := True\<rparr>
                      else emit (E_syntax_error 15) st1)
               | None \<Rightarrow> eol env s2 st1))"

definition handle_fail :: "('e, 'o) env \<Rightarrow> string \<Rightarrow> ('e, 'o) pstate \<Rightarrow> ('e, 'o) pstate" where
  "handle_fail env s st = (emit (E_syntax_error 11) st)\<lparr>parse_end := True\<rparr>"

definition handle_end :: "('e, 'o) env \<Rightarrow> string \<Rightarrow> ('e, 'o) pstate \<Rightarrow> ('e, 'o) pstate" where
  "handle_end env s st = st\<lparr>parse_end := True\<rparr>"

subsection \<open>The table of directives\<close>

definition rs_name :: string where
  "rs_name = ''__RS''"

definition comend_dirlist :: "string list" where
  "comend_dirlist = [''comend'']"

text \<open>
  Modelled from the spec: \<open>new_abs\<close> of the symbol table gives the absolute symbol of that
  name a new expression; the model keeps the expression of the offset symbol.
\<close>

definition new_abs :: "string \<Rightarrow> 'e \<Rightarrow> ('e, 'o) pstate \<Rightarrow> ('e, 'o) pstate" where
  "new_abs name e st =
     emit (E_new_abs name e) (if name = rs_name then st\<lparr>rs_expr := e\<rparr> else st)"

definition do_irp :: "('e, 'o) env \<Rightarrow> int \<Rightarrow> string \<Rightarrow> ('e, 'o) pstate \<Rightarrow> ('e, 'o) pstate" where
  "do_irp env type s st =
     (case parse_identifier env s of
        None \<Rightarrow> emit (E_syntax_error 10) st
      | Some (name, k) \<Rightarrow>
          (let s1 = skip (drop k s);
               s2 = (if peek s1 = CHR '','' then skip (drop 1 s1) else s1)
           in emit (E_new_repeat type (Some name) (Some s2) rept_dirlist endr_dirlist) st))"

definition directives :: "('e, 'o) env \<Rightarrow> (string \<times> handler) list" where
  "directives env =
     [(''rsset'', H_rsset), (''rsreset'', H_rsreset), (''rseven'', H_rseven)] @
     (if VASM_CPU_M68K env then
        [(''rs'', H_rs16), (''rs.b'', H_rs8), (''rs.w'', H_rs16), (''rs.l'', H_rs32),
         (''dc.b'', H_d8), (''dc.w'', H_d16), (''dc.l'', H_d32),
         (''dcb'', H_blk16), (''dcb.b'', H_blk8), (''dcb.w'', H_blk16), (''dcb.l'', H_blk32),
         (''ds'', H_spc16), (''ds.b'', H_spc8), (''ds.w'', H_spc16), (''ds.l'', H_spc32)]
      else
        [(''rb'', H_rs8), (''rw'', H_rs16), (''rl'', H_rs32),
         (''db'', H_d8), (''dw'', H_d16), (''dl'', H_d32),
         (''dcb'', H_blk8), (''dcw'', H_blk16), (''dcl'', H_blk32),
         (''ds'', H_spc8)]) @
     [(''org'', H_org), (''obj'', H_obj), (''objend'', H_objend),
      (''cnop'', H_cnop), (''even'', H_even), (''align'', H_align),
      (''incdir'', H_incdir), (''include'', H_include), (''incbin'', H_incbin),
      (''if'', H_ifne), (''else'', H_else), (''elseif'', H_elseif), (''endif'', H_endif),
      (''ifdef'', H_ifd), (''ifnodef'', H_ifnd), (''ifmac'', H_ifmacrod),
      (''ifnomac'', H_ifmacrond),
      (''ifstr'', H_ifnb), (''ifnostr'', H_ifb), (''ifstreq'', H_ifc), (''ifstrne'', H_ifnc),
      (''ifeq'', H_ifeq), (''ifne'', H_ifne), (''ifgt'', H_ifgt), (''ifge'', H_ifge),
      (''iflt'', H_iflt), (''ifle'', H_ifle),
      (''comment'', H_comment), (''comend'', H_comend),
      (''struct'', H_struct), (''strend'', H_endstruct),
      (''module'', H_module), (''modend'', H_endmodule),
      (''rept'', H_rept), (''irp'', H_irp), (''irpc'', H_irpc), (''endr'', H_endr),
      (''endm'', H_endm), (''mexit'', H_mexit), (''purge'', H_purge),
      (''section'', H_section), (''pushs'', H_pushsect), (''pops'', H_popsect),
      (''local'', H_local), (''weak'', H_weak), (''global'', H_global),
      (''xref'', H_xref), (''xdef'', H_xdef),
      (''inform'', H_inform), (''list'', H_list), (''nolist'', H_nolist),
      (''fail'', H_fail), (''end'', H_end)]"

text \<open>
  Modelled from the spec: the directive names are registered once at startup
  (\<open>init_syntax\<close>) into a case-insensitive dictionary from name to index;
  \<open>find_namelen_nc\<close> looks a name up in it.
\<close>

fun find_namelen_nc :: "(string \<times> handler) list \<Rightarrow> string \<Rightarrow> nat \<Rightarrow> nat option" where
  "find_namelen_nc [] name i = None"
| "find_namelen_nc (d # ds) name i =
     (if fst d = map tolower name then Some i else find_namelen_nc ds name (Suc i))"

definition check_directive :: "('e, 'o) env \<Rightarrow> string \<Rightarrow> nat option \<times> string" where
  "check_directive env line =
     (let s = skip line
      in if \<not> ISIDSTART env (peek s) then (None, line)
         else
           (let n = Suc (length (takeWhile (\<lambda>c. ISIDCHAR env c \<or> c = CHR ''.'') (drop 1 s)))
            in case find_namelen_nc (directives env) (take n s) 0 of
                 None \<Rightarrow> (None, line)
               | Some idx \<Rightarrow> (Some idx, drop n s)))"

text \<open>The call \<open>directives[idx].func(s)\<close>.\<close>

definition run_handler ::
  "('e, 'o) env \<Rightarrow> handler \<Rightarrow> string \<Rightarrow> ('e, 'o) pstate \<Rightarrow> ('e, 'o) pstate" where
  "run_handler env h s st =
     (if h = H_rsreset then new_abs rs_name (number_expr env 0) st
      else if h = H_rsset then
        new_abs rs_name (fst (parse_expr_tmplab env st s)) (emit (E_parse_expr s) st)
      else if h = H_rseven then setoffset_align env 1 2 st
      else if h = H_rs8 then fst (new_setoffset_size env st None s 1 1)
      else if h = H_rs16 then fst (new_setoffset_size env st None s 1 2)
      else if h = H_rs32 then fst (new_setoffset_size env st None s 1 4)
      else if h = H_ifeq then ifexp env s 0 st
      else if h = H_ifne then ifexp env s 1 st
      else if h = H_ifgt then ifexp env s 2 st
      else if h = H_ifge then ifexp env s 3 st
      else if h = H_iflt then ifexp env s 4 st
      else if h = H_ifle then ifexp env s 5 st
      else if h = H_ifb then emit (E_cond_if (ISEOL env (skip s))) st
      else if h = H_ifnb then emit (E_cond_if (\<not> ISEOL env (skip s))) st
      else if h = H_else \<or> h = H_elseif then emit E_cond_skipelse st
      else if h = H_endif then emit E_cond_endif st
      else if h = H_comment then emit (E_new_repeat 0 None None [] comend_dirlist) st
      else if h = H_comend \<or> h = H_endr \<or> h = H_endm then emit (E_syntax_error 12) st
      else if h = H_rept then handle_rept env s st
      else if h = H_irp then do_irp env (REPT_IRP env) s st
      else if h = H_irpc then do_irp env (REPT_IRPC env) s st
      else if h = H_local then do_bind env s (LOCAL env) st
      else if h = H_weak then do_bind env s (WEAK env) st
      else if h = H_global then do_bind env s (EXPORT env) st
      else if h = H_xref then do_bind env s (or (EXPORT env) (XREF env)) st
      else if h = H_xdef then do_bind env s (or (EXPORT env) (XDEF env)) st
      else if h = H_inform then handle_inform env s st
      else if h = H_fail then handle_fail env s st
      else if h = H_end then handle_end env s st
      else emit (E_directive h s) st)"

definition handle_directive ::
  "('e, 'o) env \<Rightarrow> string \<Rightarrow> ('e, 'o) pstate \<Rightarrow> ('e, 'o) pstate option" where
  "handle_directive env line st =
     (case check_directive env line of
        (Some idx, line') \<Rightarrow> Some (run_handler env (snd (directives env ! idx)) (skip line') st)
      | (None, line') \<Rightarrow> None)"

subsection \<open>The parse driver\<close>

text \<open>The branch \<open>if (!cond_state())\<close> of the loop: skip source until ELSE or ENDIF.\<close>

definition skip_line :: "('e, 'o) env \<Rightarrow> ('e, 'o) pstate \<Rightarrow> string \<Rightarrow> ('e, 'o) pstate" where
  "skip_line env st line =
     (let (labname, s, st1) = parse_label_or_pc env st line
      in case check_directive env s of
           (None, s1) \<Rightarrow> st1
         | (Some idx, s1) \<Rightarrow>
             (if take 2 (fst (directives env ! idx)) = ''if'' then emit E_cond_skipif st1
              else if snd (directives env ! idx) = H_else then emit E_cond_else st1
              else if snd (directives env ! idx) = H_endif then emit E_cond_endif st1
              else if snd (directives env ! idx) = H_elseif then
                (let (b, k, st2) = eval_ifexp env st1 (skip s1) 1 in emit (E_cond_elseif b) st2)
              else st1))"

text \<open>
  The condition of the last branch of the chain on the text after a label, \<open>it's just a
  label\<close>: none of \<open>equ\<close>, \<open>set\<close>, \<open>=\<close>, \<open>rs\<close>, \<open>macro\<close>, \<open>struct\<close>, and
  not a label of the cpu module.
\<close>

definition just_a_label :: "('e, 'o) env \<Rightarrow> string \<Rightarrow> string \<Rightarrow> bool" where
  "just_a_label env labname s =
     (\<not> (strnicmp0 s ''equ'' \<and> isspace (peek (drop 3 s)))
      \<and> \<not> (strnicmp0 s ''set'' \<and> isspace (peek (drop 3 s)))
      \<and> peek s \<noteq> CHR ''=''
      \<and> offs_directive env s ''rs'' = Inr False
      \<and> \<not> (strnicmp0 s ''macro'' \<and>
             (isspace (peek (drop 5 s)) \<or> peek (drop 5 s) = CHR 0x00
              \<or> peek (drop 5 s) = commentchar env))
      \<and> \<not> (strnicmp0 s ''struct'' \<and>
             (isspace (peek (drop 6 s)) \<or> peek (drop 6 s) = CHR 0x00
              \<or> peek (drop 6 s) = commentchar env))
      \<and> \<not> fst (parse_cpu_label env labname s))"

text \<open>
  The branch \<open>if (labname = parse_label_or_pc(&s))\<close>: it returns \<open>s\<close>, the state, and
  whether the line is finished (\<open>continue\<close>).
\<close>

definition label_part ::
  "('e, 'o) env \<Rightarrow> ('e, 'o) pstate \<Rightarrow> string \<Rightarrow> string \<Rightarrow> string
     \<Rightarrow> fault + (string \<times> ('e, 'o) pstate \<times> bool)" where
  "label_part env st line labname s0 =
     (let (s, st1) = handle_iif env st (skip s0)
      in if strnicmp0 s ''equ'' \<and> isspace (peek (drop 3 s)) then
           (let s1 = skip (drop 3 s); (e, k) = parse_expr_tmplab env st1 s1
            in Inr (drop k s1, emit (E_new_equate labname e) (emit (E_parse_expr s1) st1), False))
         else if strnicmp0 s ''set'' \<and> isspace (peek (drop 3 s)) then
           (let s1 = skip (drop 3 s); (e, k) = parse_expr_tmplab env st1 s1
            in Inr (drop k s1, new_abs labname e (emit (E_parse_expr s1) st1), False))
         else if peek s = CHR ''='' then
           (if peek (drop 1 s) = CHR ''='' then
              (let s1 = skip (drop 2 s); (e, k) = parse_expr_tmplab env st1 s1
               in Inr (drop k s1, emit (E_new_equate labname e) (emit (E_parse_expr s1) st1),
                       False))
            else
              (let s1 = skip (drop 1 s); (e, k) = parse_expr_tmplab env st1 s1
               in Inr (drop k s1, new_abs labname e (emit (E_parse_expr s1) st1), False)))
         else
           (case offs_directive env s ''rs'' of
              Inl f \<Rightarrow> Inl f
            | Inr True \<Rightarrow>
                (case new_setoffset env st1 (Some labname) s 1 of
                   Inl f \<Rightarrow> Inl f
                 | Inr (st2, s1) \<Rightarrow> Inr (s1, st2, False))
            | Inr False \<Rightarrow>
                if strnicmp0 s ''macro'' \<and>
                   (isspace (peek (drop 5 s)) \<or> peek (drop 5 s) = CHR 0x00
                    \<or> peek (drop 5 s) = commentchar env) then
                  (case parse_identifier env line of
                     None \<Rightarrow> Inr (s, emit E_ierror st1, True)
                   | Some (name, k) \<Rightarrow>
                       Inr (s, emit (E_new_macro name (skip (drop 5 s))) st1, True))
                else if strnicmp0 s ''struct'' \<and>
                        (isspace (peek (drop 6 s)) \<or> peek (drop 6 s) = CHR 0x00
                         \<or> peek (drop 6 s) = commentchar env) then
                  (case parse_identifier env line of
                     None \<Rightarrow> Inr (s, emit E_ierror st1, True)
                   | Some (name, k) \<Rightarrow> Inr (s, emit (E_new_structure name) st1, True))
                else if \<not> fst (parse_cpu_label env labname s) then
                  Inr (s, emit (E_add_atom (LABEL labname)) (emit (E_new_labsym labname) st1),
                       False)
                else Inr (drop (snd (parse_cpu_label env labname s)) s, st1, False)))"

text \<open>The loop that reads the operands; \<open>ops\<close> are the operands read so far.\<close>

function operands ::
  "('e, 'o) env \<Rightarrow> string \<Rightarrow> ('e, 'o) pstate \<Rightarrow> string list
     \<Rightarrow> string list \<times> string \<times> ('e, 'o) pstate" where
  "operands env s st ops =
     (if \<not> ISEOL env s \<and> length ops < MAX_OPERANDS env then
        (let s1 = fst (skip_operand env s st);
             st1 = snd (skip_operand env s st);
             n = oplen (take (length s - length s1) s);
             bad = (\<not> ALLOW_EMPTY_OPS env \<and> n \<le> 0);
             st2 = (if bad then emit (E_syntax_error 5) st1 else st1);
             ops' = (if bad then ops else ops @ [take n s])
         in if allow_spaces env then
              (if peek (skip s1) \<noteq> CHR '','' then (ops', skip s1, st2)
               else operands env (skip (drop 1 (skip s1))) st2 ops')
            else
              (if peek s1 \<noteq> CHR '','' then (ops', s1, st2)
               else operands env (drop 1 s1) st2 ops'))
      else (ops, s, st))"
  by pat_completeness auto
termination
proof -
  have sk: "length (skip x) \<le> length x" for x
    by (induction x) auto
  have lp: "length (fst (skip_operand_loop env n x st)) \<le> length x"
    for env :: "('e, 'o) env" and n x st
  proof (induction env n x st rule: skip_operand_loop.induct)
    case (1 env par_cnt st)
    show ?case by simp
  next
    case (2 env par_cnt c cs st)
    have "length (drop (skip_string env (c # cs) c) cs) \<le> length cs" by simp
    with 2 show ?case by (auto simp: le_Suc_eq intro: order_trans)
  qed
  have so: "length (fst (skip_operand env x st)) \<le> length x"
    for env :: "('e, 'o) env" and x st
    using lp [of env 0 x st] by (simp add: skip_operand_def split_beta Let_def)
  have ne: "peek y = CHR '','' \<Longrightarrow> length (drop 1 y) < length y" for y
    by (cases y) auto
  show ?thesis
  proof (relation "measure (\<lambda>(env, s, st, ops). length s)")
    show "wf (measure (\<lambda>(env, s, st, ops). length s))" by simp
  next
    fix env :: "('e, 'o) env" and s st ops x xa xb xc xd xe
    assume "x = fst (skip_operand env s st)" and "\<not> peek (skip x) \<noteq> CHR '',''"
    then have "length (skip (drop 1 (skip x))) < length s"
      using sk [of "drop 1 (skip x)"] ne [of "skip x"] sk [of x] so [of env s st] by simp
    then show "((env, skip (drop 1 (skip x)), xd, xe), env, s, st, ops)
                 \<in> measure (\<lambda>(env, s, st, ops). length s)"
      by simp
  next
    fix env :: "('e, 'o) env" and s st ops x xa xb xc xd xe
    assume "x = fst (skip_operand env s st)" and "\<not> peek x \<noteq> CHR '',''"
    then have "length (drop 1 x) < length s"
      using ne [of x] so [of env s st] by simp
    then show "((env, drop 1 x, xd, xe), env, s, st, ops)
                 \<in> measure (\<lambda>(env, s, st, ops). length s)"
      by simp
  qed
qed

declare operands.simps [simp del]

text \<open>From \<open>read mnemonic name\<close> to the end of the loop body.\<close>

definition instruction_part ::
  "('e, 'o) env \<Rightarrow> ('e, 'o) pstate \<Rightarrow> string \<Rightarrow> fault + ('e, 'o) pstate" where
  "instruction_part env st s =
     (if \<not> ISIDSTART env (peek s) then Inr (emit (E_syntax_error 10) st)
      else
        (let (inst_len, ext, k) =
               (if MAX_QUALIFIERS env = 0
                then (let n = length (takeWhile (\<lambda>c. c \<noteq> CHR 0x00 \<and> \<not> isspace c) s)
                      in (n, [], n))
                else parse_instruction env s);
             inst = take inst_len s;
             st1 = (if \<not> isspace (peek (drop k s)) \<and> peek (drop k s) \<noteq> CHR 0x00
                    then emit (E_syntax_error 2) st else st);
             s1 = skip (drop k s)
         in if execute_macro env st1 inst ext s1
            then Inr (emit (E_execute_macro inst ext s1) st1)
            else
              (case execute_struct env inst s1 st1 of
                 Inl f \<Rightarrow> Inl f
               | Inr (r, st') \<Rightarrow>
                   if r \<noteq> 0 then Inr st'
                   else
                     (let (ops, s2, st2) = operands env s1 st1 [];
                          st3 = emit (E_new_inst inst ext ops) (eol env s2 st2)
                      in case new_inst env st3 inst ops of
                           None \<Rightarrow> Inr st3
                         | Some noops \<Rightarrow>
                             Inr (emit (E_add_atom INSTRUCTION)
                                    (if allow_spaces env \<and> noops \<and> length ops \<noteq> 0
                                     then emit (E_syntax_error 6) st3 else st3))))))"

text \<open>From \<open>check for directives\<close> on.\<close>

definition directive_part ::
  "('e, 'o) env \<Rightarrow> ('e, 'o) pstate \<Rightarrow> string \<Rightarrow> fault + ('e, 'o) pstate" where
  "directive_part env st s0 =
     (if peek (skip s0) = commentchar env then Inr st
      else
        (let (s1, st1) = handle_iif env st (skip s0);
             s2 = drop (parse_cpu_special env s1) s1
         in if ISEOL env s2 then Inr st1
            else (case handle_directive env s2 st1 of
                    Some st2 \<Rightarrow> Inr st2
                  | None \<Rightarrow>
                      if ISEOL env (skip s2) then Inr st1
                      else instruction_part env st1 (skip s2))))"

definition active_line ::
  "('e, 'o) env \<Rightarrow> ('e, 'o) pstate \<Rightarrow> string \<Rightarrow> fault + ('e, 'o) pstate" where
  "active_line env st line =
     (case parse_label_or_pc env st line of
        (Some labname, s, st1) \<Rightarrow>
          (case label_part env st1 line labname s of
             Inl f \<Rightarrow> Inl f
           | Inr (s1, st2, finished) \<Rightarrow>
               if finished then Inr st2 else directive_part env st2 s1)
      | (None, s, st1) \<Rightarrow> directive_part env st1 s)"

text \<open>One turn of \<open>while (line = read_next_line())\<close>.\<close>

definition parse_line ::
  "('e, 'o) env \<Rightarrow> ('e, 'o) pstate \<Rightarrow> string \<Rightarrow> fault + ('e, 'o) pstate" where
  "parse_line env st line =
     (if parse_end st then Inr st
      else if \<not> cond_state env st then Inr (skip_line env st line)
      else active_line env st line)"

text \<open>
  \<open>parse\<close>, for the lines that \<open>read_next_line\<close> returns, in order, until it returns
  NULL.
\<close>

fun parse_lines ::
  "('e, 'o) env \<Rightarrow> string list \<Rightarrow> ('e, 'o) pstate \<Rightarrow> fault + ('e, 'o) pstate" where
  "parse_lines env [] st = Inr st"
| "parse_lines env (line # rest) st =
     (case parse_line env st line of
        Inl f \<Rightarrow> Inl f
      | Inr st' \<Rightarrow> parse_lines env rest st')"

definition parse ::
  "('e, 'o) env \<Rightarrow> string list \<Rightarrow> ('e, 'o) pstate \<Rightarrow> fault + ('e, 'o) pstate" where
  "parse env lines st =
     (case parse_lines env lines st of
        Inl f \<Rightarrow> Inl f
      | Inr st' \<Rightarrow> Inr (emit E_cond_check st'))"

subsection \<open>An instance of the core\<close>

text \<open>
  A small core for the examples: expressions are decimal numbers and are their values,
  operands are their text, and there is one structure template, \<open>point\<close>, with a word
  and a byte field. The values of \<open>EXPORT\<close>, \<open>WEAK\<close>, \<open>LOCAL\<close>, \<open>XREF\<close> and
  \<open>XDEF\<close> are bits 3, 6, 7, 16 and 17.
\<close>

definition demo_ident :: "string \<Rightarrow> (string \<times> nat) option" where
  "demo_ident s =
     (if isalpha (peek s) \<or> peek s = CHR ''_''
      then Some (takeWhile isidchar s, length (takeWhile isidchar s))
      else None)"

definition demo_digits :: "string \<Rightarrow> int" where
  "demo_digits ds = foldl (\<lambda>a c. 10 * a + (int (of_char c) - 48)) 0 ds"

definition demo_number :: "string \<Rightarrow> int \<times> nat" where
  "demo_number s =
     (if peek s = CHR ''-''
      then (- demo_digits (takeWhile isdigit (drop 1 s)),
            Suc (length (takeWhile isdigit (drop 1 s))))
      else (demo_digits (takeWhile isdigit s), length (takeWhile isdigit s)))"

text \<open>
  Modelled from the spec: the conditional engine, a stack of branch-taken flags that
  \<open>if\<close> pushes, \<open>else\<close> and \<open>elseif\<close> change at the top and \<open>endif\<close> pops, with a
  count of the blocks opened while skipping. It is read off the trace.
\<close>

fun demo_cond_step :: "bool list \<times> nat \<Rightarrow> ('e, 'o) event \<Rightarrow> bool list \<times> nat" where
  "demo_cond_step (stk, nest) (E_cond_if b) = (b # stk, nest)"
| "demo_cond_step (stk, nest) E_cond_skipif = (stk, Suc nest)"
| "demo_cond_step (stk, nest) E_cond_else = (if nest = 0 then (True # tl stk, nest) else (stk, nest))"
| "demo_cond_step (stk, nest) (E_cond_elseif b) = (if nest = 0 then (b # tl stk, nest) else (stk, nest))"
| "demo_cond_step (stk, nest) E_cond_skipelse = (if stk = [] then (stk, nest) else (False # tl stk, nest))"
| "demo_cond_step (stk, nest) E_cond_endif = (if nest = 0 then (tl stk, nest) else (stk, nest - 1))"
| "demo_cond_step (stk, nest) e = (stk, nest)"

definition demo_cond_state :: "('e, 'o) pstate \<Rightarrow> bool" where
  "demo_cond_state st =
     (case fst (foldl demo_cond_step ([], 0) (trace st)) of [] \<Rightarrow> True | b # bs \<Rightarrow> b)"

definition demo_env :: "(int, string) env" where
  "demo_env =
     \<lparr>ISIDSTART = (\<lambda>c. isalpha c \<or> c = CHR ''_'' \<or> c = CHR ''.''),
      ISIDCHAR = isidchar,
      START_PARENTH = (\<lambda>c. c = CHR ''(''),
      END_PARENTH = (\<lambda>c. c = CHR '')''),
      current_pc_char = CHR ''*'',
      commentchar = CHR '';'',
      local_char = CHR ''.'',
      allow_spaces = False,
      align_data = False,
      esc_sequences = True,
      maxmacparams = 9,
      MAX_QUALIFIERS = 1,
      MAX_OPERANDS = 4,
      ALLOW_EMPTY_OPS = False,
      VASM_CPU_M68K = True,
      BIGENDIAN = True,
      sizeof_taddr = 4,
      DATA_ALIGN = (\<lambda>n. n div 8),
      EXPORT = 8,
      WEAK = 64,
      LOCAL = 128,
      XREF = 65536,
      XDEF = 131072,
      REPT_IRP = - 1,
      REPT_IRPC = - 2,
      make_local_label = (\<lambda>n glob loc. (case glob of Some g \<Rightarrow> g | None \<Rightarrow> []) @ loc),
      parse_symbol = (\<lambda>st. demo_ident),
      parse_identifier = demo_ident,
      skip_identifier = (\<lambda>s. map_option snd (demo_ident s)),
      parse_name = demo_ident,
      parse_constexpr = (\<lambda>st. demo_number),
      parse_expr_tmplab = (\<lambda>st. demo_number),
      eval_expr = (\<lambda>st e. Some e),
      make_expr = (\<lambda>b x y. case b of ADD \<Rightarrow> x + y | SUB \<Rightarrow> x - y | MUL \<Rightarrow> x * y
                              | BAND \<Rightarrow> and x y),
      number_expr = (\<lambda>v. v),
      simplify_expr = (\<lambda>e. e),
      skip_string = (\<lambda>s c. Suc (length (takeWhile (\<lambda>x. x \<noteq> c) (drop 1 s)))),
      parse_string = (\<lambda>s c. Some (map of_char (takeWhile (\<lambda>x. x \<noteq> c) (drop 1 s)),
                                    Suc (Suc (length (takeWhile (\<lambda>x. x \<noteq> c) (drop 1 s)))))),
      parse_operand = (\<lambda>t bits. if t \<noteq> [] \<and> list_all isdigit t then Some t else None),
      setval = (\<lambda>big n v i. word_of_int (v div 256 ^ (if big then n - 1 - i else i))),
      find_structure = (\<lambda>st name. if name = ''point''
                                   then Some [DATADEF 1 16 ''0'', DATADEF 1 8 ''0'']
                                   else None),
      cond_state = demo_cond_state,
      parse_cpu_special = (\<lambda>s. 0),
      parse_cpu_label = (\<lambda>labname s. (False, 0)),
      parse_instruction = (\<lambda>s. (length (takeWhile isidchar s), [],
                                  length (takeWhile isidchar s))),
      execute_macro = (\<lambda>st inst ext s. False),
      new_inst = (\<lambda>st inst ops. Some (ops = [])),
      find_macarg_name = (\<lambda>src name. - 1),
      copy_macro_param = (\<lambda>src n dlen. (0, [])),
      copy_macro_qual = (\<lambda>src n dlen. (0, []))\<rparr>"

definition demo_state :: "(int, string) pstate" where
  "demo_state = \<lparr>parse_end = False, anon_labno = 0, symtab = (\<lambda>name. None), rs_expr = 0,
                  trace = []\<rparr>"

subsection \<open>Macro invocation contexts\<close>

text \<open>
  What the description of the escapes calls an argument that was supplied with non-empty
  text (argument \<open>k + 1\<close>, stored at index \<open>k\<close>) and a supplied qualifier, and the
  shape of a context: no more arguments than \<open>maxmacparams\<close>, and length 0 for the
  arguments that were not passed.
\<close>

definition arg_supplied :: "source \<Rightarrow> nat \<Rightarrow> bool" where
  "arg_supplied src k = (int k < num_params src \<and> param_len src ! k > 0)"

definition qualifier_supplied :: "('e, 'o) env \<Rightarrow> source \<Rightarrow> bool" where
  "qualifier_supplied env src = (MAX_QUALIFIERS env > 0 \<and> qual_len src ! 0 > 0)"

definition wf_source :: "('e, 'o) env \<Rightarrow> source \<Rightarrow> bool" where
  "wf_source env src =
     (num_params src \<le> maxmacparams env \<and> nat (maxmacparams env) \<le> length (param_len src)
      \<and> list_all (\<lambda>i. int i < num_params src \<or> param_len src ! i \<le> 0)
           [0 ..< nat (maxmacparams env)])"

definition demo_source :: source where
  "demo_source = \<lparr>src_id = 10000000, num_params = 2,
                   param_len = [3, 0, 0, 0, 0, 0, 0, 0, 0, 0], qual_len = [1]\<rparr>"

text \<open>A symbol table in which \<open>foo\<close> is a label that was exported (\<open>EXPORT\<close> is 8).\<close>

definition demo_symtab :: "string \<Rightarrow> symbol option" where
  "demo_symtab name =
     (if name = ''foo'' then Some \<lparr>sym_type = LABSYM, sym_flags = 8\<rparr> else None)"

text \<open>A state inside a conditional block whose guard was false.\<close>

definition demo_skipping :: "(int, string) pstate" where
  "demo_skipping = demo_state\<lparr>trace := [E_cond_if False]\<rparr>"

section \<open>Properties\<close>

subsection \<open>Shared facts\<close>

lemma int_cast_id: "- (2 ^ 31) \<le> v \<Longrightarrow> v < 2 ^ 31 \<Longrightarrow> int_cast v = v"
  unfolding int_cast_def by (simp add: sint_sbintrunc' signed_take_bit_int_eq_self)

lemma anon_refno_run:
  "set ms \<subseteq> {CHR ''+'', CHR ''-''} \<Longrightarrow> peek rest \<noteq> CHR ''+'' \<Longrightarrow> peek rest \<noteq> CHR ''-'' \<Longrightarrow>
   anon_refno r (ms @ rest) =
     (r + of_nat (length (filter (\<lambda>c. c = CHR ''+'') ms))
        - of_nat (length (filter (\<lambda>c. c = CHR ''-'') ms)), rest)"
proof (induction ms arbitrary: r)
  case Nil
  then show ?case by (cases rest) auto
next
  case (Cons m ms)
  then show ?case by auto
qed

lemma demo_ident_foo: "demo_ident ''foo:+'' = Some (''foo'', 3)"
  by (simp add: demo_ident_def isalpha_def isidchar_def isalnum_def isdigit_def)

subsection \<open>Anonymous labels\<close>

lemma demo_bare_colon:
  "handle_iif demo_env st [] = ([], st)"
  "just_a_label demo_env name []"
  "directive_part demo_env st [] = Inr st"
  by (simp_all add: handle_iif_def strnicmp0_def just_a_label_def offs_directive_def
        directive_part_def ISEOL_def demo_env_def Let_def)

lemma label_part_plain:
  "handle_iif env st (skip s0) = (s, st1) \<Longrightarrow> just_a_label env lab s \<Longrightarrow>
   label_part env st line lab s0 =
     Inr (s, emit (E_add_atom (LABEL lab)) (emit (E_new_labsym lab) st1), False)"
  by (auto simp add: label_part_def just_a_label_def)

text \<open>
  C2. A line that starts with \<open>:\<close> defines an anonymous label: \<open>parse_label_or_pc\<close>
  first increments \<open>anon_labno\<close> (an \<open>unsigned\<close>, so modulo \<open>2^32\<close>) and the name is made
  from \<open>:\<close> and the decimal text of the incremented counter. A reference, \<open>:\<close> followed
  by a first marker \<open>m\<close> and further markers \<open>ms\<close>, is resolved by \<open>get_local_label\<close>
  to the counter plus one when \<open>m\<close> is \<open>+\<close> and to the counter when it is \<open>-\<close>, plus
  the number of \<open>+\<close> in \<open>ms\<close> minus the number of \<open>-\<close> in \<open>ms\<close>, and the name is made
  from \<open>:\<close> and the decimal text of that number. (\<open>ISIDSTART\<close> is a macro of the
  core; \<open>:\<close> does not start an identifier.) On a line that is parsed (parsing not
  stopped, conditional state active) whose text after the \<open>:\<close> is just a label, the
  driver defines the label of that name, \<open>new_labsym\<close> and \<open>add_atom\<close> of its label
  atom, and goes on with the rest of the line.
\<close>

theorem anonymous_labels:
  assumes "\<not> ISIDSTART env (CHR '':'')"
    and "m = CHR ''+'' \<or> m = CHR ''-''"
    and "set ms \<subseteq> {CHR ''+'', CHR ''-''}"
    and "peek rest \<noteq> CHR ''+''" and "peek rest \<noteq> CHR ''-''"
  shows "parse_label_or_pc env st (CHR '':'' # line) =
           (Some (make_local_label env 0 (Some '':'') (dec_str (unat (anon_labno st + 1)))),
            skip line, st\<lparr>anon_labno := anon_labno st + 1\<rparr>)
         \<and> get_local_label env st n (CHR '':'' # m # ms @ rest) =
           (Some (make_local_label env n (Some '':'')
              (dec_str (unat ((if m = CHR ''+'' then anon_labno st + 1 else anon_labno st)
                 + of_nat (length (filter (\<lambda>c. c = CHR ''+'') ms))
                 - of_nat (length (filter (\<lambda>c. c = CHR ''-'') ms)))))),
            skip rest)
         \<and> (\<not> parse_end st \<and> cond_state env st
              \<and> handle_iif env (st\<lparr>anon_labno := anon_labno st + 1\<rparr>) (skip (skip line)) = (s, st1)
              \<and> just_a_label env
                   (make_local_label env 0 (Some '':'') (dec_str (unat (anon_labno st + 1)))) s
              \<longrightarrow>
             parse_line env st (CHR '':'' # line) =
               directive_part env
                 (emit (E_add_atom (LABEL
                    (make_local_label env 0 (Some '':'') (dec_str (unat (anon_labno st + 1))))))
                    (emit (E_new_labsym
                       (make_local_label env 0 (Some '':'') (dec_str (unat (anon_labno st + 1)))))
                       st1))
                 s)"
proof (intro conjI impI)
  show def: "parse_label_or_pc env st (CHR '':'' # line) =
           (Some (make_local_label env 0 (Some '':'') (dec_str (unat (anon_labno st + 1)))),
            skip line, st\<lparr>anon_labno := anon_labno st + 1\<rparr>)"
    by (simp add: parse_label_or_pc_def label_or_pc_tail_def Let_def)
  assume act: "\<not> parse_end st \<and> cond_state env st
      \<and> handle_iif env (st\<lparr>anon_labno := anon_labno st + 1\<rparr>) (skip (skip line)) = (s, st1)
      \<and> just_a_label env
           (make_local_label env 0 (Some '':'') (dec_str (unat (anon_labno st + 1)))) s"
  then have lp: "label_part env (st\<lparr>anon_labno := anon_labno st + 1\<rparr>) (CHR '':'' # line)
                   (make_local_label env 0 (Some '':'') (dec_str (unat (anon_labno st + 1))))
                   (skip line) =
                 Inr (s, emit (E_add_atom (LABEL
                    (make_local_label env 0 (Some '':'') (dec_str (unat (anon_labno st + 1))))))
                    (emit (E_new_labsym
                       (make_local_label env 0 (Some '':'') (dec_str (unat (anon_labno st + 1)))))
                       st1), False)"
    by (simp add: label_part_plain)
  show "parse_line env st (CHR '':'' # line) =
               directive_part env
                 (emit (E_add_atom (LABEL
                    (make_local_label env 0 (Some '':'') (dec_str (unat (anon_labno st + 1))))))
                    (emit (E_new_labsym
                       (make_local_label env 0 (Some '':'') (dec_str (unat (anon_labno st + 1)))))
                       st1))
                 s"
    using act by (simp add: parse_line_def active_line_def def lp)
next
  have sl: "skip_local env (CHR '':'' # m # ms @ rest) = None"
    using assms(1) by (simp add: skip_local_def isdigit_def)
  show "get_local_label env st n (CHR '':'' # m # ms @ rest) =
           (Some (make_local_label env n (Some '':'')
              (dec_str (unat ((if m = CHR ''+'' then anon_labno st + 1 else anon_labno st)
                 + of_nat (length (filter (\<lambda>c. c = CHR ''+'') ms))
                 - of_nat (length (filter (\<lambda>c. c = CHR ''-'') ms)))))),
            skip rest)"
    using assms(2) anon_refno_run [OF assms(3,4,5)]
    by (auto simp add: get_local_label_def sl anon_label_ref_def Let_def)
qed

theorem anonymous_labels_witness:
  "\<not> ISIDSTART demo_env (CHR '':'')
   \<and> parse_label_or_pc demo_env (demo_state\<lparr>anon_labno := 1\<rparr>) '': nop'' =
       (Some '':2'', ''nop'', demo_state\<lparr>anon_labno := 2\<rparr>)
   \<and> get_local_label demo_env (demo_state\<lparr>anon_labno := 1\<rparr>) 0 '':+-++ x'' =
       (Some '':3'', ''x'')
   \<and> parse_line demo_env demo_state '':'' =
       Inr (demo_state\<lparr>anon_labno := 1,
                         trace := [E_new_labsym '':1'', E_add_atom (LABEL '':1'')]\<rparr>)"
proof -
  have a: "\<not> ISIDSTART demo_env (CHR '':'')"
    by (simp add: demo_env_def isalpha_def)
  have d3: "dec_str 3 = ''3''" and d2: "dec_str 2 = ''2''" and d1: "dec_str (Suc 0) = ''1''"
    by (simp_all add: dec_str.simps digit_char_def)
  have act: "\<not> parse_end demo_state" "cond_state demo_env demo_state"
    by (simp_all add: demo_state_def demo_env_def demo_cond_state_def)
  have mk: "make_local_label demo_env 0 (Some '':'') t = CHR '':'' # t" for t
    by (simp add: demo_env_def)
  have no: "anon_labno demo_state = 0" "trace demo_state = []"
    by (simp_all add: demo_state_def)
  have refs: "parse_label_or_pc demo_env (demo_state\<lparr>anon_labno := 1\<rparr>) '': nop'' =
       (Some '':2'', ''nop'', demo_state\<lparr>anon_labno := 2\<rparr>)
     \<and> get_local_label demo_env (demo_state\<lparr>anon_labno := 1\<rparr>) 0 '':+-++ x'' =
       (Some '':3'', ''x'')"
    using anonymous_labels [of demo_env "CHR ''+''" "''-++''" "'' x''"
                               "demo_state\<lparr>anon_labno := 1\<rparr>" "'' nop''" 0, OF a]
    by (simp add: demo_env_def demo_state_def isspace_def d3 d2)
  have line: "parse_line demo_env demo_state '':'' =
                Inr (emit (E_add_atom (LABEL '':1'')) (emit (E_new_labsym '':1'')
                       (demo_state\<lparr>anon_labno := 1\<rparr>)))"
    using anonymous_labels [where env = demo_env and m = "CHR ''+''" and ms = "[]"
            and rest = "[]" and st = demo_state and line = "[]" and s = "[]"
            and ?st1.0 = "demo_state\<lparr>anon_labno := 1\<rparr>", OF a]
    by (simp add: act no mk d1 demo_bare_colon)
  show ?thesis
    using a refs unfolding line by (simp add: emit_def demo_state_def)
qed

text \<open>
  C9. When the symbol that leads the line (after optional white space) is followed by a
  colon and then \<open>+\<close> or \<open>-\<close>, \<open>parse_label_or_pc\<close> returns NULL and leaves
  \<open>*start\<close> and the state as they were.
\<close>

theorem label_colon_sign:
  assumes "peek start \<noteq> CHR '':''"
    and "parse_symbol env st (if isspace (peek start) then skip start else start) = Some (name, k)"
    and "skip (drop k (if isspace (peek start) then skip start else start)) = CHR '':'' # c # rest"
    and "c = CHR ''+'' \<or> c = CHR ''-''"
  shows "parse_label_or_pc env st start = (None, start, st)"
  using assms by (auto simp add: parse_label_or_pc_def Let_def)

theorem label_colon_sign_witness:
  "parse_symbol demo_env demo_state ''foo:+'' = Some (''foo'', 3)
   \<and> parse_label_or_pc demo_env demo_state ''foo:+'' = (None, ''foo:+'', demo_state)"
proof -
  have a: "peek ''foo:+'' \<noteq> CHR '':''" by simp
  have b: "parse_symbol demo_env demo_state
             (if isspace (peek ''foo:+'') then skip ''foo:+'' else ''foo:+'') = Some (''foo'', 3)"
    by (simp add: demo_env_def demo_ident_foo isspace_def)
  have c: "skip (drop 3 (if isspace (peek ''foo:+'') then skip ''foo:+'' else ''foo:+''))
             = CHR '':'' # CHR ''+'' # []"
    by (simp add: isspace_def)
  have d: "CHR ''+'' = CHR ''+'' \<or> CHR ''+'' = CHR ''-''" by simp
  show ?thesis
    using label_colon_sign [OF a b c d] by (simp add: demo_env_def demo_ident_foo)
qed

subsection \<open>Repetition\<close>

text \<open>
  C5, as stated, fails for a constant that is not a value of the type \<open>int\<close>: the count
  is cast with \<open>(int)\<close> before it is compared with 0. The non-negative constant
  \<open>2^32 + 1\<close> gives the count 1, and the negative constant \<open>- 2^31 - 1\<close> gives the count
  \<open>2^31 - 1\<close>.
\<close>

theorem rept_count_truncated:
  "trace (handle_rept demo_env ''4294967297'' demo_state) =
     [E_parse_constexpr ''4294967297'', E_new_repeat 1 None None rept_dirlist endr_dirlist]
   \<and> trace (handle_rept demo_env ''-2147483649'' demo_state) =
     [E_parse_constexpr ''-2147483649'',
      E_new_repeat 2147483647 None None rept_dirlist endr_dirlist]"
proof -
  have a: "parse_constexpr demo_env st ''4294967297'' = (4294967297, 10)" for st
    by (simp add: demo_env_def demo_number_def demo_digits_def isdigit_def)
  have b: "parse_constexpr demo_env st ''-2147483649'' = (- 2147483649, 11)" for st
    by (simp add: demo_env_def demo_number_def demo_digits_def isdigit_def)
  have c: "int_cast 4294967297 = 1" "int_cast (- 2147483649) = 2147483647"
    by (simp_all add: int_cast_def)
  show ?thesis
    by (simp add: handle_rept_def a b c emit_def demo_state_def)
qed

text \<open>
  C5, amended. For a count expression whose constant \<open>n\<close> is a value of the type \<open>int\<close>,
  \<open>handle_rept\<close> hands \<open>max n 0\<close> to \<open>new_repeat\<close>: 0 for a negative constant and \<open>n\<close>
  itself otherwise.
\<close>

theorem rept_count_clamped:
  assumes "fst (parse_constexpr env st s) = n" and "- (2 ^ 31) \<le> n" and "n < 2 ^ 31"
  shows "trace (handle_rept env s st) =
           trace st @ [E_parse_constexpr s,
                       E_new_repeat (max n 0) None None rept_dirlist endr_dirlist]"
  using assms by (simp add: handle_rept_def emit_def Let_def int_cast_id max_def)

theorem rept_count_clamped_witness:
  "trace (handle_rept demo_env ''-5'' demo_state) =
     [E_parse_constexpr ''-5'', E_new_repeat 0 None None rept_dirlist endr_dirlist]
   \<and> trace (handle_rept demo_env ''3'' demo_state) =
     [E_parse_constexpr ''3'', E_new_repeat 3 None None rept_dirlist endr_dirlist]"
proof -
  have a: "fst (parse_constexpr demo_env demo_state ''-5'') = - 5"
    by (simp add: demo_env_def demo_number_def demo_digits_def isdigit_def)
  have b: "fst (parse_constexpr demo_env demo_state ''3'') = 3"
    by (simp add: demo_env_def demo_number_def demo_digits_def isdigit_def)
  show ?thesis
    using rept_count_clamped [OF a] rept_count_clamped [OF b]
    by (simp add: demo_state_def)
qed

subsection \<open>Macro escapes\<close>

lemma count_passed_supplied:
  assumes "wf_source env src"
  shows "count_passed_macargs env src =
           int (length (filter (arg_supplied src) [0 ..< nat (num_params src)]))"
proof -
  let ?M = "nat (maxmacparams env)" and ?N = "nat (num_params src)"
  let ?P = "\<lambda>i. param_len src ! i > 0"
  from assms have le: "?N \<le> ?M" and
    un: "\<And>i. i < ?M \<Longrightarrow> int i < num_params src \<or> param_len src ! i \<le> 0"
    by (auto simp: wf_source_def list_all_iff)
  have split: "[0 ..< ?M] = [0 ..< ?N] @ [?N ..< ?M]"
    using le by (metis le_add_diff_inverse upt_add_eq_append zero_le)
  have hi: "filter ?P [?N ..< ?M] = []"
  proof -
    have "\<not> ?P i" if "i \<in> set [?N ..< ?M]" for i
      using that un [of i] by auto
    then show ?thesis by (simp add: filter_empty_conv)
  qed
  have lo: "filter ?P [0 ..< ?N] = filter (arg_supplied src) [0 ..< ?N]"
    by (rule filter_cong) (auto simp: arg_supplied_def)
  show ?thesis
    by (simp add: count_passed_macargs_def split hi lo)
qed

lemma digit_index:
  assumes "isdigit c" and "c \<noteq> CHR ''0''"
  shows "int (of_char c) - 48 \<noteq> 0" and "int (of_char c) - 48 - 1 \<ge> 0"
    and "nat (int (of_char c) - 48 - 1) = of_char c - 49"
proof -
  have "of_char c \<noteq> (48 :: nat)"
  proof
    assume "of_char c = (48 :: nat)"
    then have "char_of (of_char c :: nat) = (char_of (48 :: nat) :: char)" by simp
    moreover have "(char_of (48 :: nat) :: char) = CHR ''0''" by code_simp
    ultimately have "c = CHR ''0''" by simp
    with assms(2) show False by simp
  qed
  with assms(1) have "(of_char c :: nat) \<ge> 49" by (simp add: isdigit_def)
  then show "int (of_char c) - 48 \<noteq> 0" and "int (of_char c) - 48 - 1 \<ge> 0"
    and "nat (int (of_char c) - 48 - 1) = of_char c - 49" by auto
qed

lemma dec1: "dec_str (Suc 0) = ''1''" by (simp add: dec_str.simps digit_char_def)

text \<open>
  C3. In a macro invocation context, with room in the buffer, \<open>\#\<close> expands to the
  decimal count of the positional arguments supplied with non-empty text; \<open>\?\<close> and
  a digit from 1 to 9 expands to \<open>1\<close> exactly when that positional argument was
  supplied with non-empty text and to \<open>0\<close> otherwise; \<open>\?0\<close> expands to \<open>1\<close>
  exactly when a qualifier was supplied.
\<close>

theorem macro_arg_escapes:
  assumes "wf_source env src" and "dlen > 3"
  shows "(int (length (dec_str (length (filter (arg_supplied src) [0 ..< nat (num_params src)])))) < dlen
            \<longrightarrow> expand_macro env src (CHR 0x5C # CHR ''#'' # rest) dlen =
                  (int (length (dec_str (length (filter (arg_supplied src) [0 ..< nat (num_params src)])))),
                   dec_str (length (filter (arg_supplied src) [0 ..< nat (num_params src)])), rest))
         \<and> (isdigit c \<and> c \<noteq> CHR ''0''
            \<longrightarrow> expand_macro env src (CHR 0x5C # CHR ''?'' # c # rest) dlen =
                  (1, [if arg_supplied src (of_char c - 49) then CHR ''1'' else CHR ''0''], rest))
         \<and> expand_macro env src (CHR 0x5C # CHR ''?'' # CHR ''0'' # rest) dlen =
             (1, [if qualifier_supplied env src then CHR ''1'' else CHR ''0''], rest)"
proof (intro conjI impI)
  assume "int (length (dec_str (length (filter (arg_supplied src) [0 ..< nat (num_params src)])))) < dlen"
  then show "expand_macro env src (CHR 0x5C # CHR ''#'' # rest) dlen =
                  (int (length (dec_str (length (filter (arg_supplied src) [0 ..< nat (num_params src)])))),
                   dec_str (length (filter (arg_supplied src) [0 ..< nat (num_params src)])), rest)"
    using assms by (simp add: expand_macro_def escape_body_def count_passed_supplied Let_def)
next
  assume c: "isdigit c \<and> c \<noteq> CHR ''0''"
  have np: "num_params src \<le> maxmacparams env" using assms(1) by (simp add: wf_source_def)
  have fl: "arg_flag env src (int (of_char c) - 48 - 1) =
              (if arg_supplied src (of_char c - 49) then CHR ''1'' else CHR ''0'')"
    using digit_index [of c] c np by (auto simp: arg_flag_def arg_supplied_def)
  have q: "c \<noteq> CHR 0x5C" "c \<noteq> CHR ''@''" "c \<noteq> CHR ''#''"
    using c by (auto simp: isdigit_def)
  show "expand_macro env src (CHR 0x5C # CHR ''?'' # c # rest) dlen =
          (1, [if arg_supplied src (of_char c - 49) then CHR ''1'' else CHR ''0''], rest)"
    using assms(2) c digit_index [of c] fl
    by (simp add: expand_macro_def escape_body_def macro_arg_defined_def Let_def)
next
  show "expand_macro env src (CHR 0x5C # CHR ''?'' # CHR ''0'' # rest) dlen =
             (1, [if qualifier_supplied env src then CHR ''1'' else CHR ''0''], rest)"
    using assms(2)
    by (simp add: expand_macro_def escape_body_def macro_arg_defined_def Let_def
                  qualifier_supplied_def isdigit_def)
qed

theorem macro_arg_escapes_witness:
  "wf_source demo_env demo_source
   \<and> expand_macro demo_env demo_source (CHR 0x5C # ''#,x'') 10 = (1, ''1'', '',x'')
   \<and> expand_macro demo_env demo_source (CHR 0x5C # ''?1'') 10 = (1, ''1'', [])
   \<and> expand_macro demo_env demo_source (CHR 0x5C # ''?2'') 10 = (1, ''0'', [])
   \<and> expand_macro demo_env demo_source (CHR 0x5C # ''?0'') 10 = (1, ''1'', [])"
proof -
  have wf: "wf_source demo_env demo_source"
    by (simp add: wf_source_def demo_env_def demo_source_def upt_rec)
  have cnt: "filter (arg_supplied demo_source) [0 ..< nat (num_params demo_source)] = [0]"
    by (simp add: arg_supplied_def demo_source_def upt_rec)
  have d1: "isdigit (CHR ''1'') \<and> CHR ''1'' \<noteq> CHR ''0''"
    and d2: "isdigit (CHR ''2'') \<and> CHR ''2'' \<noteq> CHR ''0''"
    by (simp_all add: isdigit_def)
  have s0: "arg_supplied demo_source 0" and s1: "\<not> arg_supplied demo_source (Suc 0)"
    by (simp_all add: arg_supplied_def demo_source_def)
  have q: "qualifier_supplied demo_env demo_source"
    by (simp add: qualifier_supplied_def demo_env_def demo_source_def)
  show ?thesis
    using wf macro_arg_escapes [of demo_env demo_source 10 "'',x''" "CHR ''1''", OF wf]
      macro_arg_escapes [of demo_env demo_source 10 "[]" "CHR ''1''", OF wf]
      macro_arg_escapes [of demo_env demo_source 10 "[]" "CHR ''2''", OF wf]
    by (simp add: cnt dec1 d1 d2 s0 s1 q)
qed

lemma expand_macro_line:
  assumes "expand_macro env src line dlen = (nc, w, line')"
  shows "nc < dlen \<or> dlen \<le> 0" and "nc < 0 \<Longrightarrow> line' = line"
  using assms
  by (auto simp: expand_macro_def Let_def split: if_splits prod.splits)

lemma dec_1e7: "dec_str 10000000 = ''10000000''"
  by (simp add: dec_str.simps digit_char_def)

lemma uid: "unique_id_str 10000000 = ''_10000000''"
  by (simp add: unique_id_str_def dec_1e7)

text \<open>
  C4. \<open>expand_macro\<close> is to store no more than \<open>dlen\<close> characters. For \<open>\@\<close> it
  tests \<open>dlen > 7\<close>, which covers an id of up to six digits: with the id 10000000 and
  \<open>dlen = 8\<close> it stores nine characters (and the NUL of \<open>sprintf\<close>), then returns
  \<open>-1\<close> and leaves \<open>*line\<close> as it was.
\<close>

theorem unique_id_overflow:
  "expand_macro demo_env demo_source [CHR 0x5C, CHR ''@''] 8 =
     (- 1, ''_10000000'', [CHR 0x5C, CHR ''@''])
   \<and> length ''_10000000'' > (8 :: nat)"
  by (simp add: expand_macro_def escape_body_def demo_source_def uid)

subsection \<open>The offset directive\<close>

lemma rs_excludes:
  assumes "strnicmp0 t ''rs''"
  shows "\<not> strnicmp0 t ''equ''" and "\<not> strnicmp0 t ''set''" and "peek t \<noteq> CHR ''=''"
proof -
  from assms obtain a rest where t: "t = a # rest" and a: "tolower a = CHR ''r''"
    by (cases t) (auto simp: strnicmp0_def)
  have "tolower (CHR ''='') = CHR ''=''" by (simp add: tolower_def)
  with a t show "\<not> strnicmp0 t ''equ''" and "\<not> strnicmp0 t ''set''" and "peek t \<noteq> CHR ''=''"
    by (auto simp: strnicmp0_def)
qed

lemma offs_directive_name: "offs_directive env t name = Inr True \<Longrightarrow> strnicmp0 t name"
  by (auto simp: offs_directive_def Let_def split: if_splits)

lemma rs_dot_reads_past_end:
  "commentchar env \<noteq> CHR ''.'' \<Longrightarrow> offs_directive env ''rs.'' ''rs'' = Inl Read_past_end"
  "new_setoffset env st equname ''rs.'' dir = Inl Read_past_end"
  by (simp_all add: offs_directive_def new_setoffset_def strnicmp0_def tolower_def isspace_def
        ISEOL_def)

text \<open>
  C10. For a label followed by \<open>rs\<close> (\<open>new_setoffset\<close> with the label and direction 1):
  without a \<open>.\<close> qualifier the element size is 2; with a qualifier letter other than
  \<open>b\<close>, \<open>w\<close>, \<open>l\<close> the diagnostic \<open>syntax_error(1)\<close> is reported and the
  directive goes on with element size 1. In both cases \<open>new_setoffset_size\<close> runs, and
  for every element size and every operand text it equates the label to the offset before
  the directive (aligned first, when data is aligned, the size is above 1 and there is an
  operand) and gives the offset symbol its new expression. The driver runs
  \<open>new_setoffset\<close> for the label whenever \<open>offs_directive\<close> accepts the text after it.
\<close>

theorem rs_offset_qualifier:
  "(2 \<le> length start \<and> peek (drop 2 start) \<noteq> CHR ''.'' \<longrightarrow>
      new_setoffset env st (Some lab) start 1 =
        Inr (new_setoffset_size env st (Some lab) (skip (drop 2 start)) 1 2))
   \<and> (4 \<le> length start \<and> peek (drop 2 start) = CHR ''.''
        \<and> tolower (peek (drop 3 start)) \<noteq> CHR ''b''
        \<and> tolower (peek (drop 3 start)) \<noteq> CHR ''w''
        \<and> tolower (peek (drop 3 start)) \<noteq> CHR ''l'' \<longrightarrow>
      new_setoffset env st (Some lab) start 1 =
        Inr (new_setoffset_size env (emit (E_syntax_error 1) st) (Some lab)
               (skip (drop 4 start)) 1 1))
   \<and> (ISEOL env s \<longrightarrow>
        new_setoffset_size env st0 (Some lab) s 1 sz =
          (st0\<lparr>trace := trace st0 @ [E_new_equate lab (rs_expr st0)],
               rs_expr := simplify_expr env (rs_expr st0)\<rparr>, s))
   \<and> (\<not> ISEOL env s \<and> \<not> (align_data env \<and> sz > 1) \<longrightarrow>
        new_setoffset_size env st0 (Some lab) s 1 sz =
          (st0\<lparr>trace := trace st0 @ [E_parse_expr s, E_new_equate lab (rs_expr st0)],
               rs_expr := simplify_expr env
                 (make_expr env ADD (rs_expr st0)
                    (simplify_expr env
                       (make_expr env MUL (fst (parse_expr_tmplab env st0 s))
                          (number_expr env sz))))\<rparr>,
           drop (snd (parse_expr_tmplab env st0 s)) s))
   \<and> (\<not> ISEOL env s \<and> align_data env \<and> sz > 1 \<longrightarrow>
        new_setoffset_size env st0 (Some lab) s 1 sz =
          (st0\<lparr>trace := trace st0 @
                 [E_parse_expr s,
                  E_new_equate lab
                    (simplify_expr env
                       (make_expr env BAND
                          (make_expr env ADD (rs_expr st0)
                             (number_expr env (DATA_ALIGN env (sz * 8) - 1)))
                          (number_expr env (- (DATA_ALIGN env (sz * 8) - 1) - 1))))],
               rs_expr := simplify_expr env
                 (make_expr env ADD
                    (simplify_expr env
                       (make_expr env BAND
                          (make_expr env ADD (rs_expr st0)
                             (number_expr env (DATA_ALIGN env (sz * 8) - 1)))
                          (number_expr env (- (DATA_ALIGN env (sz * 8) - 1) - 1))))
                    (simplify_expr env
                       (make_expr env MUL (fst (parse_expr_tmplab env st0 s))
                          (number_expr env sz))))\<rparr>,
           drop (snd (parse_expr_tmplab env st0 s)) s))
   \<and> (handle_iif env st (skip s0) = (t, st1) \<and> offs_directive env t ''rs'' = Inr True \<longrightarrow>
        label_part env st line lab s0 =
          (case new_setoffset env st1 (Some lab) t 1 of
             Inl f \<Rightarrow> Inl f
           | Inr (st2, s2) \<Rightarrow> Inr (s2, st2, False)))"
proof (intro conjI impI)
  assume h: "handle_iif env st (skip s0) = (t, st1) \<and> offs_directive env t ''rs'' = Inr True"
  then have rs: "strnicmp0 t ''rs''" using offs_directive_name by blast
  show "label_part env st line lab s0 =
          (case new_setoffset env st1 (Some lab) t 1 of
             Inl f \<Rightarrow> Inl f
           | Inr (st2, s2) \<Rightarrow> Inr (s2, st2, False))"
    using h rs_excludes [OF rs] by (simp add: label_part_def)
qed (auto simp add: new_setoffset_def new_setoffset_size_def Let_def emit_def split_beta)

lemma demo_rs_text:
  "handle_iif demo_env st ''rs 4'' = (''rs 4'', st)"
  "offs_directive demo_env ''rs 4'' ''rs'' = Inr True"
  by (simp_all add: handle_iif_def offs_directive_def strnicmp0_def tolower_def isspace_def)

theorem rs_offset_qualifier_witness:
  "new_setoffset demo_env demo_state (Some ''lab'') ''rs 4'' 1 =
     Inr (demo_state\<lparr>trace := [E_parse_expr ''4'', E_new_equate ''lab'' 0], rs_expr := 8\<rparr>, [])
   \<and> new_setoffset demo_env demo_state (Some ''lab'') ''rs.x 3'' 1 =
     Inr (demo_state\<lparr>trace := [E_syntax_error 1, E_parse_expr ''3'', E_new_equate ''lab'' 0],
                       rs_expr := 3\<rparr>, [])
   \<and> new_setoffset_size demo_env demo_state (Some ''lab'') [] 1 2 =
     (demo_state\<lparr>trace := [E_new_equate ''lab'' 0]\<rparr>, [])
   \<and> new_setoffset_size (demo_env\<lparr>align_data := True\<rparr>) (demo_state\<lparr>rs_expr := 3\<rparr>)
        (Some ''lab'') ''4'' 1 2 =
     (demo_state\<lparr>trace := [E_parse_expr ''4'', E_new_equate ''lab'' 4], rs_expr := 12\<rparr>, [])
   \<and> label_part demo_env demo_state ''lab rs 4'' ''lab'' ''rs 4'' =
     Inr ([], demo_state\<lparr>trace := [E_parse_expr ''4'', E_new_equate ''lab'' 0], rs_expr := 8\<rparr>,
          False)"
proof -
  have x: "tolower (CHR ''x'') = CHR ''x''" by (simp add: tolower_def)
  have e4: "ISEOL env' ''4'' = False" "ISEOL env' ''3'' = False"
    "ISEOL demo_env [] = True" "align_data demo_env = False"
    if "commentchar env' = CHR '';''" for env' :: "(int, string) env"
    using that by (simp_all add: ISEOL_def demo_env_def)
  have cc: "commentchar demo_env = CHR '';''"
    "commentchar (demo_env\<lparr>align_data := True\<rparr>) = CHR '';''"
    by (simp_all add: demo_env_def)
  have p4: "parse_expr_tmplab demo_env st ''4'' = (4, 1)"
    "parse_expr_tmplab demo_env st ''3'' = (3, 1)"
    "parse_expr_tmplab (demo_env\<lparr>align_data := True\<rparr>) st ''4'' = (4, 1)" for st
    by (simp_all add: demo_env_def demo_number_def demo_digits_def isdigit_def)
  have mk: "make_expr demo_env ADD a b = a + b" "make_expr demo_env MUL a b = a * b"
    "simplify_expr demo_env a = a" "number_expr demo_env a = a" for a b
    by (simp_all add: demo_env_def)
  have mk': "make_expr demo_env BAND a b = and a b" "DATA_ALIGN demo_env a = a div 8" for a b
    by (simp_all add: demo_env_def)
  have band: "and (4 :: int) (- 2) = 4" by simp
  have one: "new_setoffset demo_env demo_state (Some ''lab'') ''rs 4'' 1 =
     Inr (demo_state\<lparr>trace := [E_parse_expr ''4'', E_new_equate ''lab'' 0], rs_expr := 8\<rparr>, [])"
    using rs_offset_qualifier [where start = "''rs 4''" and env = demo_env and st = demo_state
             and lab = "''lab''" and s = "''4''" and ?st0.0 = demo_state and sz = 2]
    by (simp add: e4 [OF cc(1)] p4 mk isspace_def demo_state_def)
  have two: "new_setoffset demo_env demo_state (Some ''lab'') ''rs.x 3'' 1 =
     Inr (demo_state\<lparr>trace := [E_syntax_error 1, E_parse_expr ''3'', E_new_equate ''lab'' 0],
                       rs_expr := 3\<rparr>, [])"
    using rs_offset_qualifier [where start = "''rs.x 3''" and env = demo_env and st = demo_state
             and lab = "''lab''" and s = "''3''" and ?st0.0 = "emit (E_syntax_error 1) demo_state"
             and sz = 1]
    by (simp add: x e4 [OF cc(1)] p4 mk isspace_def emit_def demo_state_def)
  have three: "new_setoffset_size demo_env demo_state (Some ''lab'') [] 1 2 =
     (demo_state\<lparr>trace := [E_new_equate ''lab'' 0]\<rparr>, [])"
    using rs_offset_qualifier [where env = demo_env and lab = "''lab''" and s = "[]"
             and ?st0.0 = demo_state and sz = 2]
    by (simp add: e4 [OF cc(1)] mk demo_state_def)
  have four: "new_setoffset_size (demo_env\<lparr>align_data := True\<rparr>) (demo_state\<lparr>rs_expr := 3\<rparr>)
        (Some ''lab'') ''4'' 1 2 =
     (demo_state\<lparr>trace := [E_parse_expr ''4'', E_new_equate ''lab'' 4], rs_expr := 12\<rparr>, [])"
    using rs_offset_qualifier [where env = "demo_env\<lparr>align_data := True\<rparr>" and lab = "''lab''"
             and s = "''4''" and ?st0.0 = "demo_state\<lparr>rs_expr := 3\<rparr>" and sz = 2]
    by (simp add: e4 [OF cc(2)] p4 mk mk' band demo_state_def)
  have five: "label_part demo_env demo_state ''lab rs 4'' ''lab'' ''rs 4'' =
     (case new_setoffset demo_env demo_state (Some ''lab'') ''rs 4'' 1 of
        Inl f \<Rightarrow> Inl f | Inr (st2, s2) \<Rightarrow> Inr (s2, st2, False))"
    using rs_offset_qualifier [where env = demo_env and st = demo_state and ?s0.0 = "''rs 4''"
             and t = "''rs 4''" and ?st1.0 = demo_state and lab = "''lab''"
             and line = "''lab rs 4''"]
    by (simp add: demo_rs_text isspace_def)
  show ?thesis
    unfolding five one using two three four by simp
qed

subsection \<open>Structure instantiation\<close>

lemma write_at_string:
  "write_at (replicate n 0) 0 (take n str) = take n str @ replicate (n - length str) 0"
  by (simp add: write_at_def min_def)

lemma write_at_value:
  "off + length bs \<le> n \<Longrightarrow>
   write_at (replicate n 0) off bs = replicate off 0 @ bs @ replicate (n - (off + length bs)) 0"
  by (simp add: write_at_def min_def)

lemma so1: "skip_operand demo_env '',5'' st = ('',5'', st)"
  and so2: "skip_operand demo_env ''?,5'' st = ('',5'', st)"
  and so3: "skip_operand demo_env ''5'' st = ([], st)"
  and so4: "skip_operand demo_env [] st = ([], st)"
  and so5: "skip_operand demo_env ''7'' st = ([], st)"
  and so6: "skip_operand demo_env [CHR 0x22, CHR ''a'', CHR ''b'', CHR ''c'', CHR 0x22] st = ([], st)"
  by (simp_all add: skip_operand_def demo_env_def)

lemma po5: "parse_operand demo_env ''5'' bits = Some ''5''"
  and poq: "parse_operand demo_env ''?'' bits = None"
  by (simp_all add: demo_env_def isdigit_def)

lemma fs: "find_structure demo_env st ''point'' = Some [DATADEF 1 16 ''0'', DATADEF 1 8 ''0'']"
  and fn: "find_structure demo_env st ''line'' = None"
  by (simp_all add: demo_env_def)

lemma demo_string:
  "parse_string demo_env [CHR 0x22, CHR ''a'', CHR ''b'', CHR ''c'', CHR 0x22] (CHR 0x22)
     = Some ([97, 98, 99], 5)"
  by (simp add: demo_env_def)




lemma struct_defaults:
  "execute_struct demo_env ''point'' [] demo_state =
     Inr (1, demo_state\<lparr>trace := [E_add_atom (DATADEF 1 16 ''0''),
                                     E_add_atom (DATADEF 1 8 ''0'')]\<rparr>)"
proof -
  have "execute_struct demo_env ''point'' [] st =
          Inr (1, emit (E_add_atom (DATADEF 1 8 ''0'')) (emit (E_add_atom (DATADEF 1 16 ''0'')) st))"
    for st
    by (simp add: execute_struct_def fs so4 is_field_def Let_def)
  then show ?thesis
    by (simp add: emit_def demo_state_def)
qed

text \<open>
  Outside the amended claim: a constant for a data field shorter than \<open>sizeof(taddr)\<close>
  is stored past the end of the block, and a null pointer from \<open>parse_string\<close> is
  dereferenced.
\<close>

lemma struct_data_faults:
  "length bytes \<noteq> 0 \<Longrightarrow> peek opp \<noteq> CHR 0x22 \<Longrightarrow> peek opp \<noteq> CHR 0x27 \<Longrightarrow>
   length bytes < sizeof_taddr env \<Longrightarrow> struct_data env (DATA al bytes) opp st = Inl Store_past_end"
  "length bytes \<noteq> 0 \<Longrightarrow> peek opp = CHR 0x22 \<Longrightarrow> parse_string env opp (CHR 0x22) = None \<Longrightarrow>
   struct_data env (DATA al bytes) opp st = Inl Null_pointer"
  by (auto simp add: struct_data_def Let_def)

subsection \<open>Symbol binding\<close>

lemma bind_clash_bit0:
  "bind_clash env flags bind =
     (and flags 1 \<noteq> 0 \<and> or (EXPORT env) (or (WEAK env) (LOCAL env)) \<noteq> 0
      \<and> or (EXPORT env) (or (WEAK env) (LOCAL env)) \<noteq> bind)"
  by (auto simp add: bind_clash_def Let_def)

lemma demo_ident_foo0: "demo_ident ''foo'' = Some (''foo'', 3)"
  by (simp add: demo_ident_def isalpha_def isidchar_def isalnum_def isdigit_def)

text \<open>
  C7. \<open>do_bind\<close> is to report \<open>general_error(62)\<close> and leave the flags when the symbol
  already has a different binding. For the exported symbol \<open>foo\<close> and the directive
  \<open>weak foo\<close> it reports nothing and adds \<open>WEAK\<close> to the flags: the test reads bit
  0 of the flags only (\<open>bind_clash_bit0\<close>).
\<close>

theorem bind_no_diagnostic:
  "trace (do_bind demo_env ''foo'' (WEAK demo_env) (demo_state\<lparr>symtab := demo_symtab\<rparr>)) = []
   \<and> symtab (do_bind demo_env ''foo'' (WEAK demo_env) (demo_state\<lparr>symtab := demo_symtab\<rparr>)) ''foo''
       = Some \<lparr>sym_type = LABSYM, sym_flags = 72\<rparr>"
proof -
  have pi: "parse_identifier demo_env ''foo'' = Some (''foo'', 3)"
    by (simp add: demo_env_def demo_ident_foo0)
  have nc: "\<not> bind_clash demo_env 8 64"
    by (simp add: bind_clash_bit0)
  have w: "WEAK demo_env = 64" "XREF demo_env = 65536" "commentchar demo_env = CHR '';''"
     "allow_spaces demo_env = False"
    by (simp_all add: demo_env_def)
  have bs: "bind_symbol demo_env ''foo'' 64 (demo_state\<lparr>symtab := demo_symtab\<rparr>) =
              demo_state\<lparr>symtab := demo_symtab(''foo'' := Some \<lparr>sym_type = LABSYM, sym_flags = 72\<rparr>)\<rparr>"
    by (simp add: bind_symbol_def new_import_def demo_symtab_def demo_state_def nc w Let_def)
  have ts: "trace demo_state = []" by (simp add: demo_state_def)
  show ?thesis
    by (simp add: do_bind.simps [of demo_env "''foo''"] pi w bs eol_def ISEOL_def ts)
qed

subsection \<open>The parse driver\<close>

lemma label_or_pc_tail_fields:
  "label_or_pc_tail env st start name s = (nm, s', st') \<Longrightarrow> st' = st"
  by (auto simp: label_or_pc_tail_def Let_def split: if_splits prod.splits)

lemma parse_label_or_pc_fields:
  assumes "parse_label_or_pc env st line = (nm, s, st')"
  shows "trace st' = trace st" and "parse_end st' = parse_end st"
    and "symtab st' = symtab st" and "rs_expr st' = rs_expr st"
  using assms
  by (auto simp: parse_label_or_pc_def Let_def split: if_splits option.splits prod.splits
           dest!: label_or_pc_tail_fields)

lemma eval_ifexp_trace:
  "trace (snd (snd (eval_ifexp env st s 1))) =
     trace st @ [E_parse_expr s, E_eval_expr (fst (parse_expr_tmplab env st s))]
       @ (if eval_expr env st (fst (parse_expr_tmplab env st s)) = None
          then [E_general_error 30] else [])"
  by (simp add: eval_ifexp_def emit_def split_beta Let_def split: option.splits)

lemma demo_ident_words:
  "demo_ident ''elseif 1'' = Some (''elseif'', 6)"
  "demo_ident ''ifeq 1'' = Some (''ifeq'', 4)"
  "demo_ident ''fail'' = Some (''fail'', 4)"
  "demo_ident ''dc.b 1'' = Some (''dc'', 2)"
  by (simp_all add: demo_ident_def isalpha_def isidchar_def isalnum_def isdigit_def)

lemma demo_labels:
  "parse_label_or_pc demo_env st '' elseif 1'' = (None, '' elseif 1'', st)"
  "parse_label_or_pc demo_env st '' ifeq 1'' = (None, '' ifeq 1'', st)"
  "parse_label_or_pc demo_env st '' fail'' = (None, '' fail'', st)"
  "parse_label_or_pc demo_env st '' dc.b 1'' = (None, '' dc.b 1'', st)"
  by (simp_all add: parse_label_or_pc_def demo_env_def demo_ident_words isspace_def Let_def)

lemma demo_lookup:
  "find_namelen_nc (directives demo_env) ''elseif'' 0 = Some 29"
  "find_namelen_nc (directives demo_env) ''ifeq'' 0 = Some 39"
  "find_namelen_nc (directives demo_env) ''fail'' 0 = Some 69"
  "find_namelen_nc (directives demo_env) ''dc.b'' 0 = Some 7"
  by (simp_all add: directives_def demo_env_def tolower_def)

lemma demo_entries:
  "directives demo_env ! 29 = (''elseif'', H_elseif)"
  "directives demo_env ! 39 = (''ifeq'', H_ifeq)"
  "directives demo_env ! 69 = (''fail'', H_fail)"
  "directives demo_env ! 7 = (''dc.b'', H_d8)"
  by (simp_all add: directives_def demo_env_def)

lemma demo_idchars:
  "ISIDSTART demo_env c = (isalpha c \<or> c = CHR ''_'' \<or> c = CHR ''.'')"
  "ISIDCHAR demo_env = isidchar"
  by (simp_all add: demo_env_def)

lemma demo_checks:
  "check_directive demo_env '' elseif 1'' = (Some 29, '' 1'')"
  "check_directive demo_env '' ifeq 1'' = (Some 39, '' 1'')"
  "check_directive demo_env '' fail'' = (Some 69, [])"
  "check_directive demo_env '' dc.b 1'' = (Some 7, '' 1'')"
  "check_directive demo_env ''fail'' = (Some 69, [])"
  by (simp_all add: check_directive_def isspace_def demo_idchars demo_lookup Let_def
        isalpha_def isidchar_def isalnum_def isdigit_def)

lemma demo_inactive: "\<not> parse_end demo_skipping" "\<not> cond_state demo_env demo_skipping"
  and demo_skipping_trace: "trace demo_skipping = [E_cond_if False]"
  by (simp_all add: demo_skipping_def demo_state_def demo_env_def demo_cond_state_def)

lemma demo_expr_1:
  "parse_expr_tmplab demo_env st ''1'' = (1, 1)" "eval_expr demo_env st e = Some e"
  by (simp_all add: demo_env_def demo_number_def demo_digits_def isdigit_def)

lemma demo_ident_more:
  "demo_ident ''else'' = Some (''else'', 4)"
  "demo_ident ''endif'' = Some (''endif'', 5)"
  "demo_ident ''msg'' = Some (''msg'', 3)"
  by (simp_all add: demo_ident_def isalpha_def isidchar_def isalnum_def isdigit_def)

lemma demo_labels_more:
  "parse_label_or_pc demo_env st '' else'' = (None, '' else'', st)"
  "parse_label_or_pc demo_env st '' endif'' = (None, '' endif'', st)"
  by (simp_all add: parse_label_or_pc_def demo_env_def demo_ident_more isspace_def Let_def)

lemma demo_lookup_more:
  "find_namelen_nc (directives demo_env) ''else'' 0 = Some 28"
  "find_namelen_nc (directives demo_env) ''endif'' 0 = Some 30"
  by (simp_all add: directives_def demo_env_def tolower_def)

lemma demo_entries_more:
  "directives demo_env ! 28 = (''else'', H_else)"
  "directives demo_env ! 30 = (''endif'', H_endif)"
  by (simp_all add: directives_def demo_env_def)

lemma demo_checks_more:
  "check_directive demo_env '' else'' = (Some 28, [])"
  "check_directive demo_env '' endif'' = (Some 30, [])"
  by (simp_all add: check_directive_def isspace_def demo_idchars demo_lookup_more Let_def
        isalpha_def isidchar_def isalnum_def isdigit_def)

text \<open>
  C1, as stated, fails for \<open>elseif\<close>: while the conditional state is inactive, the line
  \<open>elseif 1\<close> has its guard parsed and evaluated (\<open>eval_ifexp\<close>) before
  \<open>cond_elseif\<close> is called.
\<close>

theorem inactive_elseif_evaluates:
  "\<not> cond_state demo_env demo_skipping
   \<and> parse_line demo_env demo_skipping '' elseif 1'' =
       Inr (demo_skipping\<lparr>trace := [E_cond_if False, E_parse_expr ''1'', E_eval_expr 1,
                                        E_cond_elseif True]\<rparr>)"
  by (simp add: demo_inactive parse_line_def skip_line_def demo_labels demo_checks
        demo_entries eval_ifexp_def demo_expr_1 isspace_def emit_def demo_skipping_trace)

text \<open>
  C1, amended. While the conditional state is inactive (and parsing has not been stopped),
  the driver skips a leading label (which changes nothing but the anonymous counter), looks
  the directive name up, and then: for a name that starts with \<open>if\<close> it calls
  \<open>cond_skipif\<close> without evaluating the guard; for \<open>else\<close> it calls \<open>cond_else\<close>;
  for \<open>endif\<close> it calls \<open>cond_endif\<close>; for \<open>elseif\<close> it parses and evaluates the
  guard and passes the result to \<open>cond_elseif\<close>; for any other directive, and for a line
  without a directive, it does nothing: no handler and no instruction is dispatched.
\<close>

theorem inactive_line:
  assumes "\<not> parse_end st" and "\<not> cond_state env st"
    and "parse_label_or_pc env st line = (lab, s, st1)"
    and "check_directive env s = (idx, s1)"
  shows "trace st1 = trace st \<and> parse_end st1 = parse_end st
    \<and> symtab st1 = symtab st \<and> rs_expr st1 = rs_expr st
    \<and> (idx = None \<longrightarrow> parse_line env st line = Inr st1)
    \<and> (idx = Some i \<and> take 2 (fst (directives env ! i)) = ''if'' \<longrightarrow>
          parse_line env st line = Inr (emit E_cond_skipif st1))
    \<and> (idx = Some i \<and> take 2 (fst (directives env ! i)) \<noteq> ''if''
         \<and> snd (directives env ! i) = H_else \<longrightarrow>
          parse_line env st line = Inr (emit E_cond_else st1))
    \<and> (idx = Some i \<and> take 2 (fst (directives env ! i)) \<noteq> ''if''
         \<and> snd (directives env ! i) = H_endif \<longrightarrow>
          parse_line env st line = Inr (emit E_cond_endif st1))
    \<and> (idx = Some i \<and> take 2 (fst (directives env ! i)) \<noteq> ''if''
         \<and> snd (directives env ! i) = H_elseif \<longrightarrow>
          parse_line env st line =
            Inr (emit (E_cond_elseif (fst (eval_ifexp env st1 (skip s1) 1)))
                   (snd (snd (eval_ifexp env st1 (skip s1) 1))))
          \<and> trace (snd (snd (eval_ifexp env st1 (skip s1) 1))) =
              trace st @ [E_parse_expr (skip s1),
                          E_eval_expr (fst (parse_expr_tmplab env st1 (skip s1)))]
                @ (if eval_expr env st1 (fst (parse_expr_tmplab env st1 (skip s1))) = None
                   then [E_general_error 30] else []))
    \<and> (idx = Some i \<and> take 2 (fst (directives env ! i)) \<noteq> ''if''
         \<and> snd (directives env ! i) \<noteq> H_else \<and> snd (directives env ! i) \<noteq> H_endif
         \<and> snd (directives env ! i) \<noteq> H_elseif \<longrightarrow>
          parse_line env st line = Inr st1)"
proof -
  have pl: "parse_line env st line = Inr (skip_line env st line)"
    using assms(1,2) by (simp add: parse_line_def)
  have tr: "trace st1 = trace st"
    using parse_label_or_pc_fields(1) [OF assms(3)] .
  show ?thesis
    using parse_label_or_pc_fields [OF assms(3)] assms(3,4)
    by (simp add: pl skip_line_def eval_ifexp_trace tr split_beta Let_def)
qed

theorem inactive_line_witness:
  "parse_line demo_env demo_skipping '' elseif 1'' =
     Inr (demo_skipping\<lparr>trace := [E_cond_if False, E_parse_expr ''1'', E_eval_expr 1,
                                      E_cond_elseif True]\<rparr>)
   \<and> parse_line demo_env demo_skipping '' ifeq 1'' =
     Inr (demo_skipping\<lparr>trace := [E_cond_if False, E_cond_skipif]\<rparr>)
   \<and> parse_line demo_env demo_skipping '' else'' =
     Inr (demo_skipping\<lparr>trace := [E_cond_if False, E_cond_else]\<rparr>)
   \<and> parse_line demo_env demo_skipping '' endif'' =
     Inr (demo_skipping\<lparr>trace := [E_cond_if False, E_cond_endif]\<rparr>)
   \<and> parse_line demo_env demo_skipping '' dc.b 1'' = Inr demo_skipping"
proof -
  note a = inactive_line [OF demo_inactive demo_labels(1) demo_checks(1), where i = 29]
  note b = inactive_line [OF demo_inactive demo_labels(2) demo_checks(2), where i = 39]
  note c = inactive_line [OF demo_inactive demo_labels(4) demo_checks(4), where i = 7]
  note d = inactive_line [OF demo_inactive demo_labels_more(1) demo_checks_more(1), where i = 28]
  note e = inactive_line [OF demo_inactive demo_labels_more(2) demo_checks_more(2), where i = 30]
  show ?thesis
    using a b c d e
    by (simp add: demo_entries demo_entries_more eval_ifexp_def demo_expr_1 isspace_def emit_def
          demo_skipping_trace)
qed

lemma eol_parse_end: "parse_end (eol env s st) = parse_end st"
  by (simp add: eol_def emit_def)

lemma parse_lines_stopped: "parse_end st \<Longrightarrow> parse_lines env lines st = Inr st"
  by (induction lines) (simp_all add: parse_line_def)

lemma demo_fail_line:
  "parse_line demo_env demo_state '' fail'' = Inr (handle_fail demo_env [] demo_state)"
proof -
  have act: "\<not> parse_end demo_state" "cond_state demo_env demo_state"
    by (simp_all add: demo_state_def demo_env_def demo_cond_state_def)
  have cfg: "commentchar demo_env = CHR '';''" "parse_cpu_special demo_env s = 0" for s
    by (simp_all add: demo_env_def)
  have iif: "handle_iif demo_env st ''fail'' = (''fail'', st)" for st
    by (simp add: handle_iif_def strnicmp0_def tolower_def)
  have hd: "handle_directive demo_env ''fail'' st = Some (handle_fail demo_env [] st)" for st
    by (simp add: handle_directive_def demo_checks demo_entries run_handler_def)
  show ?thesis
    by (simp add: parse_line_def act active_line_def demo_labels directive_part_def isspace_def
          cfg iif hd ISEOL_def)
qed

lemma demo_inform:
  "parse_constexpr demo_env st ''3,msg'' = (3, 1)"
  "parse_name demo_env ''msg'' = Some (''msg'', 3)"
  by (simp_all add: demo_env_def demo_number_def demo_digits_def isdigit_def demo_ident_more)

text \<open>
  C8. \<open>fail\<close> and \<open>end\<close> set the flag \<open>parse_end\<close>, and so does \<open>inform\<close> with
  severity 3 (followed by a comma and a text). Once the flag is set, \<open>parse\<close> ignores
  every line that follows: the state stays as it is, whatever the lines are, and at the end
  of the input \<open>cond_check\<close> is still called.
\<close>

theorem stop_parsing:
  "parse_end (handle_fail env s st) \<and> parse_end (handle_end env s st)
   \<and> (int_cast (fst (parse_constexpr env st s)) = 3
       \<and> peek (skip (drop (snd (parse_constexpr env st s)) s)) = CHR '',''
       \<and> parse_name env (skip (drop 1 (skip (drop (snd (parse_constexpr env st s)) s)))) \<noteq> None
       \<longrightarrow> parse_end (handle_inform env s st))
   \<and> (parse_end st0 \<longrightarrow>
         parse_lines env lines st0 = Inr st0
         \<and> parse env lines st0 = Inr (emit E_cond_check st0))"
  by (auto simp add: handle_fail_def handle_end_def handle_inform_def emit_def eol_parse_end
        parse_def parse_lines_stopped split_beta Let_def)

theorem stop_parsing_witness:
  "parse_line demo_env demo_state '' fail'' =
     Inr (demo_state\<lparr>parse_end := True, trace := [E_syntax_error 11]\<rparr>)
   \<and> parse demo_env ['' fail'', ''lab: dc.b 1'', '' endif''] demo_state =
       Inr (demo_state\<lparr>parse_end := True, trace := [E_syntax_error 11, E_cond_check]\<rparr>)
   \<and> parse_end (handle_inform demo_env ''3,msg'' demo_state)"
proof -
  let ?st = "handle_fail demo_env [] demo_state"
  have pe: "parse_end ?st"
    using stop_parsing [of demo_env "[]" demo_state] by simp
  have rest: "parse_lines demo_env [''lab: dc.b 1'', '' endif''] ?st = Inr ?st"
    "parse demo_env [''lab: dc.b 1'', '' endif''] ?st = Inr (emit E_cond_check ?st)"
    using stop_parsing [where ?st0.0 = ?st and env = demo_env
            and lines = "[''lab: dc.b 1'', '' endif'']"] pe
    by simp_all
  have run: "parse demo_env ['' fail'', ''lab: dc.b 1'', '' endif''] demo_state =
               Inr (emit E_cond_check ?st)"
    unfolding parse_def
      parse_lines.simps(2) [of demo_env "'' fail''" "[''lab: dc.b 1'', '' endif'']" demo_state]
      demo_fail_line
    using rest(1) by (simp del: parse_lines.simps(2))
  have inf: "parse_end (handle_inform demo_env ''3,msg'' demo_state)"
    using stop_parsing [where env = demo_env and s = "''3,msg''" and st = demo_state]
    by (simp add: demo_inform int_cast_id isspace_def)
  show ?thesis
    unfolding run demo_fail_line using inf by (simp add: handle_fail_def emit_def demo_state_def)
qed

end
